theory Spec2Isabelle
  imports Complex_Main "HOL-Library.Word"
begin

section \<open>Go values and types, as far as the server inspects them\<close>

text \<open>
  A Go \<^verbatim>\<open>byte\<close> is an 8-bit value, as an Isabelle \<^typ>\<open>char\<close> is; a Go \<^verbatim>\<open>string\<close> and a
  \<^verbatim>\<open>[]byte\<close> are both byte sequences.  The code never computes with bytes, it only
  compares them with the record separator 30.
\<close>

type_synonym byte = char

datatype chanDir = RecvDir | SendDir | BothDir

text \<open>The types \<^verbatim>\<open>reflect.Type\<close> can describe, and their \<^verbatim>\<open>reflect.Kind\<close>.\<close>

datatype go_type =
    TBool
  | TInt | TInt8 | TInt16 | TInt32 | TInt64
  | TUint | TUint8 | TUint16 | TUint32 | TUint64
  | TFloat32 | TFloat64
  | TString
  | TInterface
  | TSlice go_type
  | TArray nat go_type
  | TMap go_type go_type
  | TChan chanDir go_type
  | TNamed string go_type

datatype kind =
    KBool
  | KInt | KInt8 | KInt16 | KInt32 | KInt64
  | KUint | KUint8 | KUint16 | KUint32 | KUint64
  | KFloat32 | KFloat64
  | KString
  | KInterface
  | KSlice
  | KArray
  | KMap
  | KChan

fun Kind :: "go_type \<Rightarrow> kind" where
  "Kind TBool = KBool"
| "Kind TInt = KInt"
| "Kind TInt8 = KInt8"
| "Kind TInt16 = KInt16"
| "Kind TInt32 = KInt32"
| "Kind TInt64 = KInt64"
| "Kind TUint = KUint"
| "Kind TUint8 = KUint8"
| "Kind TUint16 = KUint16"
| "Kind TUint32 = KUint32"
| "Kind TUint64 = KUint64"
| "Kind TFloat32 = KFloat32"
| "Kind TFloat64 = KFloat64"
| "Kind TString = KString"
| "Kind TInterface = KInterface"
| "Kind (TSlice t) = KSlice"
| "Kind (TArray n t) = KArray"
| "Kind (TMap k v) = KMap"
| "Kind (TChan d t) = KChan"
| "Kind (TNamed name t) = Kind t"

text \<open>
  A JSON document.  A number written without fraction and exponent is \<open>JInt\<close> with the
  integer it denotes (only such a number can be stored into an integer field); a number
  written with a fraction or an exponent is \<open>JNumber\<close> with the real number it denotes.
  The members of an object are kept in document order.
\<close>

datatype json =
    JNull
  | JBool bool
  | JInt int
  | JNumber real
  | JString string
  | JArray "json list"
  | JObject "(string \<times> json) list"

text \<open>
  The dynamic values an \<^verbatim>\<open>interface{}\<close> holds in this program.  An integer value carries
  its type and its mathematical value; a \<^verbatim>\<open>float64\<close> is the real number it denotes (the
  JSON decoder only produces finite ones); \<open>VSlice\<close> is a \<^verbatim>\<open>[]interface{}\<close>, \<open>VArray\<close>
  an array of \<^verbatim>\<open>interface{}\<close>, \<open>VMap\<close> a \<^verbatim>\<open>map[string]interface{}\<close> with its
  entries in document order, \<open>VChan\<close> a channel.  \<open>VRaw\<close> is a \<^verbatim>\<open>json.RawMessage\<close>:
  the bytes of one JSON value cut out of a frame, identified here with the document they
  spell (the program hands them back to the JSON library and never looks into them).
\<close>

datatype go_value =
    VNil
  | VBool bool
  | VInt go_type int
  | VFloat32 real
  | VFloat64 real
  | VString string
  | VSlice "go_value list"
  | VArray "go_value list"
  | VMap "(string \<times> go_value) list"
  | VChan go_type
  | VRaw json

definition RawMessage :: go_type where
  "RawMessage = TNamed ''json.RawMessage'' (TSlice TUint8)"

text \<open>\<^verbatim>\<open>reflect.TypeOf\<close>: the dynamic type of an interface value, \<open>None\<close> for the nil interface.\<close>

fun TypeOf :: "go_value \<Rightarrow> go_type option" where
  "TypeOf VNil = None"
| "TypeOf (VBool b) = Some TBool"
| "TypeOf (VInt t n) = Some t"
| "TypeOf (VFloat32 r) = Some TFloat32"
| "TypeOf (VFloat64 r) = Some TFloat64"
| "TypeOf (VString s) = Some TString"
| "TypeOf (VSlice xs) = Some (TSlice TInterface)"
| "TypeOf (VArray xs) = Some (TArray (length xs) TInterface)"
| "TypeOf (VMap kvs) = Some (TMap TString TInterface)"
| "TypeOf (VChan t) = Some (TChan BothDir t)"
| "TypeOf (VRaw doc) = Some RawMessage"

text \<open>
  What the language leaves to the implementation: the width of \<^verbatim>\<open>int\<close> and \<^verbatim>\<open>uint\<close>, the
  result of converting a floating-point value that the target integer type cannot
  represent, rounding to \<^verbatim>\<open>float32\<close>, and the text \<^verbatim>\<open>fmt.Sprint\<close> prints for a float.
\<close>

record platform =
  int_bits :: nat
  out_of_range :: "go_type \<Rightarrow> real \<Rightarrow> int"
  to_float32 :: "real \<Rightarrow> real"
  Sprint :: "real \<Rightarrow> string"

fun int_range :: "platform \<Rightarrow> go_type \<Rightarrow> (int \<times> int) option" where
  "int_range P TInt = Some (- (2 ^ (int_bits P - 1)), 2 ^ (int_bits P - 1) - 1)"
| "int_range P TInt8 = Some (- 128, 127)"
| "int_range P TInt16 = Some (- 32768, 32767)"
| "int_range P TInt32 = Some (- 2147483648, 2147483647)"
| "int_range P TInt64 = Some (- 9223372036854775808, 9223372036854775807)"
| "int_range P TUint = Some (0, 2 ^ int_bits P - 1)"
| "int_range P TUint8 = Some (0, 255)"
| "int_range P TUint16 = Some (0, 65535)"
| "int_range P TUint32 = Some (0, 4294967295)"
| "int_range P TUint64 = Some (0, 18446744073709551615)"
| "int_range P t = None"

definition representable :: "platform \<Rightarrow> go_type \<Rightarrow> int \<Rightarrow> bool" where
  "representable P t n = (case int_range P t of None \<Rightarrow> False | Some (lo, hi) \<Rightarrow> lo \<le> n \<and> n \<le> hi)"

text \<open>The fraction is discarded: truncation towards zero.\<close>

definition toward_zero :: "real \<Rightarrow> int" where
  "toward_zero r = (if 0 \<le> r then \<lfloor>r\<rfloor> else \<lceil>r\<rceil>)"

text \<open>The conversion \<^verbatim>\<open>T(number)\<close> of a \<^verbatim>\<open>float64\<close> to the integer type \<open>T\<close>.\<close>

definition float_to_int :: "platform \<Rightarrow> go_type \<Rightarrow> real \<Rightarrow> int" where
  "float_to_int P t number =
     (if representable P t (toward_zero number) then toward_zero number else out_of_range P t number)"

section \<open>Protocol messages\<close>

text \<open>
  Modelled from the spec: the declarations of the message structs \<^verbatim>\<open>hubMessage\<close>,
  \<^verbatim>\<open>invocationMessage\<close>, \<^verbatim>\<open>sendOnlyHubInvocationMessage\<close>, \<^verbatim>\<open>streamItemMessage\<close>,
  \<^verbatim>\<open>completionMessage\<close>, \<^verbatim>\<open>cancelInvocationMessage\<close> and \<^verbatim>\<open>closeMessage\<close> are not part
  of the sources at hand.  Their fields are the ones the code reads and writes; their
  JSON member names are those of the wire format table (\<^verbatim>\<open>type\<close>, \<^verbatim>\<open>target\<close>,
  \<^verbatim>\<open>invocationId\<close>, \<^verbatim>\<open>arguments\<close>, \<^verbatim>\<open>streamIds\<close>, \<^verbatim>\<open>item\<close>, \<^verbatim>\<open>result\<close>, \<^verbatim>\<open>error\<close>,
  \<^verbatim>\<open>allowReconnect\<close>), a member marked optional there being left out when empty.
  \<^verbatim>\<open>jsonInvocationMessage\<close> is declared in the sources.  A nil slice and an empty slice
  are both the empty list.  The field \<^verbatim>\<open>Type\<close> is an \<^verbatim>\<open>int\<close>, taken 64 bits wide and read
  as a signed number by \<open>sint\<close>.
\<close>

record hubMessage =
  Type :: "64 word"

record invocationMessage =
  Type :: "64 word"
  Target :: string
  InvocationID :: string
  Arguments :: "go_value list"
  StreamIds :: "string list"

record sendOnlyHubInvocationMessage =
  Type :: "64 word"
  Target :: string
  Arguments :: "go_value list"

record streamItemMessage =
  Type :: "64 word"
  InvocationID :: string
  Item :: go_value

record completionMessage =
  Type :: "64 word"
  InvocationID :: string
  Result :: go_value
  Error :: string

record cancelInvocationMessage =
  Type :: "64 word"
  InvocationID :: string

record closeMessage =
  Type :: "64 word"
  Error :: string
  AllowReconnect :: bool

record jsonInvocationMessage =
  Type :: "64 word"
  Target :: string
  InvocationID :: string
  Arguments :: "json list"
  StreamIds :: "string list"

text \<open>
  What a \<^verbatim>\<open>message interface{}\<close> holds: one of the protocol's structs, or some other
  value.
\<close>

datatype message =
    HubMessage hubMessage
  | InvocationMessage invocationMessage
  | SendOnlyHubInvocationMessage sendOnlyHubInvocationMessage
  | StreamItemMessage streamItemMessage
  | CompletionMessage completionMessage
  | CancelInvocationMessage cancelInvocationMessage
  | CloseMessage closeMessage
  | Other go_value

section \<open>The JSON library\<close>

datatype json_error = SyntaxError | UnmarshalTypeError | UnsupportedTypeError

text \<open>
  The text side of the JSON library is a parameter: \<open>Marshal\<close> writes a document,
  \<open>Unmarshal\<close> parses one, \<open>Decode t\<close> stores a document into a variable of type \<open>t\<close>
  (\<^verbatim>\<open>json.Unmarshal\<close> with a pointer to such a variable), \<open>Plain\<close> tells whether the
  library writes a whole floating-point number without fraction and exponent, and
  \<open>Unfinished\<close> is the text the generated \<^verbatim>\<open>MarshalEasyJSON\<close> leaves in its buffer for a
  message one of whose values has no JSON form.  \<open>Encode\<close> is \<^verbatim>\<open>json.Encoder.Encode\<close>,
  which ends the text it writes with a newline.
\<close>

record json_lib =
  Marshal :: "json \<Rightarrow> byte list"
  Unmarshal :: "byte list \<Rightarrow> json_error + json"
  Decode :: "go_type \<Rightarrow> json \<Rightarrow> json_error + go_value"
  Plain :: "real \<Rightarrow> bool"
  Unfinished :: "message \<Rightarrow> byte list"

definition Encode :: "json_lib \<Rightarrow> json \<Rightarrow> byte list" where
  "Encode L doc = Marshal L doc @ [CHR 0x0A]"

datatype error =
    EOF
  | ReadError
  | WriteError
  | LibraryError json_error
  | jsonError "byte list" json_error
  | NotMarshaler
  | KindMismatch kind "go_type option"
  | TooManyChanParams string
  | MissingArgument
  | ArgumentPanic

text \<open>
  A call returns, or panics, or the whole process dies of a panic that nothing can
  recover.
\<close>

datatype 'a outcome = Return 'a | Panic | Crash

subsection \<open>Values and structs as documents\<close>

text \<open>
  Marshalling a value: a channel has no JSON form; a raw message is copied as it is; an
  integer is written as such; a floating-point number is written without fraction and
  exponent when it is whole and the library chooses so.
\<close>

fun those_list :: "'a option list \<Rightarrow> 'a list option" where
  "those_list [] = Some []"
| "those_list (None # xs) = None"
| "those_list (Some x # xs) = (case those_list xs of None \<Rightarrow> None | Some ys \<Rightarrow> Some (x # ys))"

definition float_to_json :: "json_lib \<Rightarrow> real \<Rightarrow> json" where
  "float_to_json L r = (if of_int \<lfloor>r\<rfloor> = r \<and> Plain L r then JInt \<lfloor>r\<rfloor> else JNumber r)"

fun value_to_json :: "json_lib \<Rightarrow> go_value \<Rightarrow> json option" where
  "value_to_json L VNil = Some JNull"
| "value_to_json L (VBool b) = Some (JBool b)"
| "value_to_json L (VInt t n) = Some (JInt n)"
| "value_to_json L (VFloat32 r) = Some (float_to_json L r)"
| "value_to_json L (VFloat64 r) = Some (float_to_json L r)"
| "value_to_json L (VString s) = Some (JString s)"
| "value_to_json L (VSlice xs) = map_option JArray (those_list (map (value_to_json L) xs))"
| "value_to_json L (VArray xs) = map_option JArray (those_list (map (value_to_json L) xs))"
| "value_to_json L (VMap kvs) =
     map_option JObject
       (those_list (map (\<lambda>kv. map_option (Pair (fst kv)) (value_to_json L (snd kv))) kvs))"
| "value_to_json L (VChan t) = None"
| "value_to_json L (VRaw doc) = Some doc"

text \<open>Unmarshalling a document into an \<^verbatim>\<open>interface{}\<close>: every number is a \<^verbatim>\<open>float64\<close>.\<close>

fun json_to_value :: "json \<Rightarrow> go_value" where
  "json_to_value JNull = VNil"
| "json_to_value (JBool b) = VBool b"
| "json_to_value (JInt n) = VFloat64 (of_int n)"
| "json_to_value (JNumber r) = VFloat64 r"
| "json_to_value (JString s) = VString s"
| "json_to_value (JArray xs) = VSlice (map json_to_value xs)"
| "json_to_value (JObject kvs) = VMap (map (\<lambda>kv. (fst kv, json_to_value (snd kv))) kvs)"

text \<open>A member that \<^verbatim>\<open>omitempty\<close> leaves out when the field is empty.\<close>

definition omitempty :: "bool \<Rightarrow> string \<Rightarrow> json \<Rightarrow> (string \<times> json) list" where
  "omitempty is_empty name doc = (if is_empty then [] else [(name, doc)])"

definition type_member :: "64 word \<Rightarrow> (string \<times> json) list" where
  "type_member n = [(''type'', JInt (sint n))]"

fun message_to_json :: "json_lib \<Rightarrow> message \<Rightarrow> json option" where
  "message_to_json L (HubMessage m) = Some (JObject (type_member (hubMessage.Type m)))"
| "message_to_json L (InvocationMessage m) =
     (case those_list (map (value_to_json L) (invocationMessage.Arguments m)) of
        None \<Rightarrow> None
      | Some args \<Rightarrow> Some (JObject
          (type_member (invocationMessage.Type m)
           @ [(''target'', JString (invocationMessage.Target m))]
           @ omitempty (invocationMessage.InvocationID m = []) ''invocationId''
               (JString (invocationMessage.InvocationID m))
           @ [(''arguments'', JArray args)]
           @ omitempty (invocationMessage.StreamIds m = []) ''streamIds''
               (JArray (map JString (invocationMessage.StreamIds m))))))"
| "message_to_json L (SendOnlyHubInvocationMessage m) =
     (case those_list (map (value_to_json L) (sendOnlyHubInvocationMessage.Arguments m)) of
        None \<Rightarrow> None
      | Some args \<Rightarrow> Some (JObject
          (type_member (sendOnlyHubInvocationMessage.Type m)
           @ [(''target'', JString (sendOnlyHubInvocationMessage.Target m))]
           @ [(''arguments'', JArray args)])))"
| "message_to_json L (StreamItemMessage m) =
     (case value_to_json L (streamItemMessage.Item m) of
        None \<Rightarrow> None
      | Some item \<Rightarrow> Some (JObject
          (type_member (streamItemMessage.Type m)
           @ [(''invocationId'', JString (streamItemMessage.InvocationID m))]
           @ [(''item'', item)])))"
| "message_to_json L (CompletionMessage m) =
     (case value_to_json L (completionMessage.Result m) of
        None \<Rightarrow> None
      | Some result \<Rightarrow> Some (JObject
          (type_member (completionMessage.Type m)
           @ [(''invocationId'', JString (completionMessage.InvocationID m))]
           @ omitempty (completionMessage.Result m = VNil) ''result'' result
           @ omitempty (completionMessage.Error m = []) ''error''
               (JString (completionMessage.Error m)))))"
| "message_to_json L (CancelInvocationMessage m) =
     Some (JObject
       (type_member (cancelInvocationMessage.Type m)
        @ [(''invocationId'', JString (cancelInvocationMessage.InvocationID m))]))"
| "message_to_json L (CloseMessage m) =
     Some (JObject
       (type_member (closeMessage.Type m)
        @ omitempty (closeMessage.Error m = []) ''error'' (JString (closeMessage.Error m))
        @ omitempty (\<not> closeMessage.AllowReconnect m) ''allowReconnect''
            (JBool (closeMessage.AllowReconnect m))))"
| "message_to_json L (Other v) = value_to_json L v"

subsection \<open>Documents as structs\<close>

text \<open>
  Two decoders fill the structs: \<^verbatim>\<open>encoding/json\<close>, which \<^verbatim>\<open>ReadMessage\<close> calls through
  \<^verbatim>\<open>json.Unmarshal\<close>, and the \<^verbatim>\<open>UnmarshalJSON\<close> methods that easyjson generates, which
  \<^verbatim>\<open>ParseMessage\<close> calls.  Modelled from the spec: the generated methods are not part of
  the sources at hand.  Both go through the members of an object in document order and
  store each member whose name is a field's; a later member of the same name overwrites
  an earlier one.  They differ in three ways.  \<^verbatim>\<open>encoding/json\<close> takes a member name
  that is not exactly a field's name for the field it equals without regard to case
  (\<open>folds\<close>); after a member of the wrong JSON type it goes on with the members that
  follow and reports the error at the end (\<open>goes_on\<close>), where the generated code stops;
  and the generated code skips every member that is \<^verbatim>\<open>null\<close> (\<open>null_skipped\<close>), where
  \<^verbatim>\<open>encoding/json\<close> stores nil into an interface or a slice.
\<close>

record decoder =
  folds :: bool
  goes_on :: bool
  null_skipped :: bool

definition encoding_json :: decoder where
  "encoding_json = \<lparr>folds = True, goes_on = True, null_skipped = False\<rparr>"

definition easyjson :: decoder where
  "easyjson = \<lparr>folds = False, goes_on = False, null_skipped = True\<rparr>"

text \<open>
  Names without regard to case, as \<^verbatim>\<open>encoding/json\<close> compares them: the letters a to z
  count as A to Z, and so do the two characters outside ASCII that Unicode folds onto a
  letter, the Kelvin sign (bytes E2 84 AA) onto K and the long s (bytes C5 BF) onto S.
\<close>

definition upper :: "char \<Rightarrow> char" where
  "upper c =
     (case map_of (zip ''abcdefghijklmnopqrstuvwxyz'' ''ABCDEFGHIJKLMNOPQRSTUVWXYZ'') c of
        None \<Rightarrow> c
      | Some l \<Rightarrow> l)"

fun fold_name :: "string \<Rightarrow> string" where
  "fold_name [] = []"
| "fold_name (c # cs) =
     (if c = CHR 0xE2 \<and> take 2 cs = [CHR 0x84, CHR 0xAA] then CHR ''K'' # fold_name (drop 2 cs)
      else if c = CHR 0xC5 \<and> take 1 cs = [CHR 0xBF] then CHR ''S'' # fold_name (drop 1 cs)
      else upper c # fold_name cs)"

text \<open>
  The field a member name stands for: the field of exactly that name, else, for a
  decoder that folds, the first field of that name without regard to case.
\<close>

definition find_field :: "decoder \<Rightarrow> string \<Rightarrow> (string \<times> 'f) list \<Rightarrow> 'f option" where
  "find_field C name fs =
     (case map_of fs name of
        Some f \<Rightarrow> Some f
      | None \<Rightarrow>
          if folds C then map_of (map (\<lambda>nf. (fold_name (fst nf), snd nf)) fs) (fold_name name)
          else None)"

text \<open>
  Reading one member for a field of a given type gives the value to store, if any, and
  whether the member was acceptable.  An \<^verbatim>\<open>int\<close> takes a number written without fraction
  and exponent that fits into 64 bits; \<^verbatim>\<open>null\<close> leaves an \<^verbatim>\<open>int\<close>, a string or a boolean
  as it is.  In a slice of strings an element that is no string stays empty and makes the
  member unacceptable.
\<close>

fun int_value :: "json \<Rightarrow> 64 word option \<times> bool" where
  "int_value JNull = (None, True)"
| "int_value (JInt n) =
     (if - (2 ^ 63) \<le> n \<and> n < 2 ^ 63 then (Some (word_of_int n), True) else (None, False))"
| "int_value doc = (None, False)"

fun string_value :: "json \<Rightarrow> string option \<times> bool" where
  "string_value JNull = (None, True)"
| "string_value (JString s) = (Some s, True)"
| "string_value doc = (None, False)"

fun bool_value :: "json \<Rightarrow> bool option \<times> bool" where
  "bool_value JNull = (None, True)"
| "bool_value (JBool b) = (Some b, True)"
| "bool_value doc = (None, False)"

fun interface_value :: "json \<Rightarrow> go_value option \<times> bool" where
  "interface_value doc = (Some (json_to_value doc), True)"

fun raws_value :: "json \<Rightarrow> json list option \<times> bool" where
  "raws_value JNull = (Some [], True)"
| "raws_value (JArray xs) = (Some xs, True)"
| "raws_value doc = (None, False)"

fun string_element :: "json \<Rightarrow> string \<times> bool" where
  "string_element (JString s) = (s, True)"
| "string_element JNull = ([], True)"
| "string_element doc = ([], False)"

fun strings_value :: "json \<Rightarrow> string list option \<times> bool" where
  "strings_value JNull = (Some [], True)"
| "strings_value (JArray xs) =
     (Some (map (\<lambda>x. fst (string_element x)) xs), list_all (\<lambda>x. snd (string_element x)) xs)"
| "strings_value doc = (None, False)"

text \<open>A field: how to read a member for it and how to put the value into the struct.\<close>

definition store ::
  "(json \<Rightarrow> 'a option \<times> bool) \<Rightarrow> ('a \<Rightarrow> 's \<Rightarrow> 's) \<Rightarrow> json \<Rightarrow> 's \<Rightarrow> 's \<times> bool" where
  "store read put doc s = (case read doc of (None, ok) \<Rightarrow> (s, ok) | (Some x, ok) \<Rightarrow> (put x s, ok))"

type_synonym 's field_list = "(string \<times> (json \<Rightarrow> 's \<Rightarrow> 's \<times> bool)) list"

text \<open>
  Filling a struct from the members of an object, in document order.  The result is the
  struct and whether every member was acceptable.
\<close>

fun fill :: "decoder \<Rightarrow> 's field_list \<Rightarrow> (string \<times> json) list \<Rightarrow> 's \<Rightarrow> 's \<times> bool" where
  "fill C fs [] s = (s, True)"
| "fill C fs (kv # kvs) s =
     (case find_field C (fst kv) fs of
        None \<Rightarrow> fill C fs kvs s
      | Some field \<Rightarrow>
          if snd kv = JNull \<and> null_skipped C then fill C fs kvs s
          else
            (case field (snd kv) s of
               (s', True) \<Rightarrow> fill C fs kvs s'
             | (s', False) \<Rightarrow> if goes_on C then (fst (fill C fs kvs s'), False) else (s', False)))"

definition type_error :: "bool \<Rightarrow> json_error option" where
  "type_error ok = (if ok then None else Some UnmarshalTypeError)"

text \<open>
  Decoding a document into a struct that starts as \<open>zero\<close>: an object fills it, \<^verbatim>\<open>null\<close>
  leaves it, anything else is an error.
\<close>

fun decode_struct :: "decoder \<Rightarrow> 's field_list \<Rightarrow> 's \<Rightarrow> json \<Rightarrow> 's \<times> json_error option" where
  "decode_struct C fs zero (JObject kvs) =
     (case fill C fs kvs zero of (s, ok) \<Rightarrow> (s, type_error ok))"
| "decode_struct C fs zero JNull = (zero, None)"
| "decode_struct C fs zero doc = (zero, Some UnmarshalTypeError)"

definition decode_hubMessage :: "decoder \<Rightarrow> json \<Rightarrow> hubMessage \<times> json_error option" where
  "decode_hubMessage C =
     decode_struct C
       [(''type'', store int_value (\<lambda>x s. s\<lparr>hubMessage.Type := x\<rparr>))]
       \<lparr>hubMessage.Type = 0\<rparr>"

definition decode_jsonInvocationMessage ::
  "decoder \<Rightarrow> json \<Rightarrow> jsonInvocationMessage \<times> json_error option" where
  "decode_jsonInvocationMessage C =
     decode_struct C
       [(''type'', store int_value (\<lambda>x s. s\<lparr>jsonInvocationMessage.Type := x\<rparr>)),
        (''target'', store string_value (\<lambda>x s. s\<lparr>jsonInvocationMessage.Target := x\<rparr>)),
        (''invocationId'',
           store string_value (\<lambda>x s. s\<lparr>jsonInvocationMessage.InvocationID := x\<rparr>)),
        (''arguments'', store raws_value (\<lambda>x s. s\<lparr>jsonInvocationMessage.Arguments := x\<rparr>)),
        (''streamIds'', store strings_value (\<lambda>x s. s\<lparr>jsonInvocationMessage.StreamIds := x\<rparr>))]
       \<lparr>jsonInvocationMessage.Type = 0, Target = [], InvocationID = [], Arguments = [],
        StreamIds = []\<rparr>"

definition decode_streamItemMessage ::
  "decoder \<Rightarrow> json \<Rightarrow> streamItemMessage \<times> json_error option" where
  "decode_streamItemMessage C =
     decode_struct C
       [(''type'', store int_value (\<lambda>x s. s\<lparr>streamItemMessage.Type := x\<rparr>)),
        (''invocationId'', store string_value (\<lambda>x s. s\<lparr>streamItemMessage.InvocationID := x\<rparr>)),
        (''item'', store interface_value (\<lambda>x s. s\<lparr>streamItemMessage.Item := x\<rparr>))]
       \<lparr>streamItemMessage.Type = 0, InvocationID = [], Item = VNil\<rparr>"

definition decode_completionMessage ::
  "decoder \<Rightarrow> json \<Rightarrow> completionMessage \<times> json_error option" where
  "decode_completionMessage C =
     decode_struct C
       [(''type'', store int_value (\<lambda>x s. s\<lparr>completionMessage.Type := x\<rparr>)),
        (''invocationId'', store string_value (\<lambda>x s. s\<lparr>completionMessage.InvocationID := x\<rparr>)),
        (''result'', store interface_value (\<lambda>x s. s\<lparr>completionMessage.Result := x\<rparr>)),
        (''error'', store string_value (\<lambda>x s. s\<lparr>completionMessage.Error := x\<rparr>))]
       \<lparr>completionMessage.Type = 0, InvocationID = [], Result = VNil, Error = []\<rparr>"

definition decode_cancelInvocationMessage ::
  "decoder \<Rightarrow> json \<Rightarrow> cancelInvocationMessage \<times> json_error option" where
  "decode_cancelInvocationMessage C =
     decode_struct C
       [(''type'', store int_value (\<lambda>x s. s\<lparr>cancelInvocationMessage.Type := x\<rparr>)),
        (''invocationId'',
           store string_value (\<lambda>x s. s\<lparr>cancelInvocationMessage.InvocationID := x\<rparr>))]
       \<lparr>cancelInvocationMessage.Type = 0, InvocationID = []\<rparr>"

definition decode_closeMessage :: "decoder \<Rightarrow> json \<Rightarrow> closeMessage \<times> json_error option" where
  "decode_closeMessage C =
     decode_struct C
       [(''type'', store int_value (\<lambda>x s. s\<lparr>closeMessage.Type := x\<rparr>)),
        (''error'', store string_value (\<lambda>x s. s\<lparr>closeMessage.Error := x\<rparr>)),
        (''allowReconnect'', store bool_value (\<lambda>x s. s\<lparr>closeMessage.AllowReconnect := x\<rparr>))]
       \<lparr>closeMessage.Type = 0, Error = [], AllowReconnect = False\<rparr>"

text \<open>
  \<^verbatim>\<open>json.Unmarshal(data, &x)\<close> and the generated \<^verbatim>\<open>x.UnmarshalJSON(data)\<close>: parse the
  text, then fill the struct \<open>x\<close>, which starts at its zero value.  A text that does not
  parse leaves \<open>x\<close> untouched.
\<close>

definition unmarshal_struct ::
  "json_lib \<Rightarrow> (json \<Rightarrow> 'a \<times> json_error option) \<Rightarrow> byte list \<Rightarrow> 'a \<times> json_error option" where
  "unmarshal_struct L decode data =
     (case Unmarshal L data of
        Inl e \<Rightarrow> (fst (decode JNull), Some e)
      | Inr doc \<Rightarrow> decode doc)"

section \<open>The stream client\<close>

text \<open>
  An upstream channel is known by the element type it was made with and by the values
  sent on it so far, oldest first.
\<close>

record upchan =
  Elem :: go_type
  sent :: "go_value list"

record streamClient =
  upstreamChannels :: "string \<rightharpoonup> upchan"

text \<open>
  \<^verbatim>\<open>reflect.Indirect(reflect.New(upChan.Type().Elem())).Interface()\<close>: the zero value of
  the element type, boxed in an interface.  The code only looks at its dynamic type,
  which is the element type itself unless that is an interface type, whose zero value is
  the nil interface.
\<close>

fun chanElm_type :: "go_type \<Rightarrow> go_type option" where
  "chanElm_type t = (if Kind t = KInterface then None else Some t)"

fun convertNumberToChannelType :: "platform \<Rightarrow> go_type option \<Rightarrow> real \<Rightarrow> go_value \<times> bool" where
  "convertNumberToChannelType P (Some TInt) number = (VInt TInt (float_to_int P TInt number), True)"
| "convertNumberToChannelType P (Some TInt8) number = (VInt TInt8 (float_to_int P TInt8 number), True)"
| "convertNumberToChannelType P (Some TInt16) number = (VInt TInt16 (float_to_int P TInt16 number), True)"
| "convertNumberToChannelType P (Some TInt32) number = (VInt TInt32 (float_to_int P TInt32 number), True)"
| "convertNumberToChannelType P (Some TInt64) number = (VInt TInt64 (float_to_int P TInt64 number), True)"
| "convertNumberToChannelType P (Some TUint) number = (VInt TUint (float_to_int P TUint number), True)"
| "convertNumberToChannelType P (Some TUint8) number = (VInt TUint8 (float_to_int P TUint8 number), True)"
| "convertNumberToChannelType P (Some TUint16) number = (VInt TUint16 (float_to_int P TUint16 number), True)"
| "convertNumberToChannelType P (Some TUint32) number = (VInt TUint32 (float_to_int P TUint32 number), True)"
| "convertNumberToChannelType P (Some TUint64) number = (VInt TUint64 (float_to_int P TUint64 number), True)"
| "convertNumberToChannelType P (Some TFloat32) number = (VFloat32 (to_float32 P number), True)"
| "convertNumberToChannelType P (Some TFloat64) number = (VFloat64 number, True)"
| "convertNumberToChannelType P (Some TString) number = (VString (Sprint P number), True)"
| "convertNumberToChannelType P chanElm number = (VFloat64 number, False)"

text \<open>\<^verbatim>\<open>upChan.Send(v)\<close> on the channel registered under \<open>sid\<close>.\<close>

definition Send :: "streamClient \<Rightarrow> string \<Rightarrow> upchan \<Rightarrow> go_value \<Rightarrow> streamClient" where
  "Send u sid upChan v =
     u\<lparr>upstreamChannels := (upstreamChannels u)(sid \<mapsto> upChan\<lparr>sent := sent upChan @ [v]\<rparr>)\<rparr>"

text \<open>
  \<^verbatim>\<open>reflect.Value.Send\<close> panics unless the value is assignable to the channel's element
  type: its type is the element type, or the element type is the empty interface.
\<close>

definition assignable :: "go_type option \<Rightarrow> go_type \<Rightarrow> bool" where
  "assignable vt et = (et = TInterface \<or> vt = Some et)"

text \<open>
  \<^verbatim>\<open>receiveStreamItem\<close>.  \<^verbatim>\<open>reflect.TypeOf(x).Kind()\<close> is a method call on a nil
  \<^verbatim>\<open>reflect.Type\<close> when \<open>x\<close> is the nil interface, which panics.  In the outer
  \<^verbatim>\<open>switch\<close>, \<^verbatim>\<open>case reflect.Slice\<close> falls through into \<^verbatim>\<open>case reflect.Array\<close>, whose
  inner \<^verbatim>\<open>switch\<close> either leaves by \<^verbatim>\<open>break\<close> or returns the error; after the
  \<^verbatim>\<open>break\<close> control reaches the final \<^verbatim>\<open>return nil\<close>.  In the \<^verbatim>\<open>default\<close> case a
  goroutine sends the item and then puts nil on \<^verbatim>\<open>done\<close>.  When the item is not
  assignable, \<^verbatim>\<open>Send\<close> panics with a string; the deferred function recovers it and
  asserts \<^verbatim>\<open>err.(error)\<close>, which a string does not satisfy, so the deferred function
  panics in its turn, nothing recovers that in the goroutine, and the process dies.
\<close>

definition receiveStreamItem ::
  "platform \<Rightarrow> streamClient \<Rightarrow> streamItemMessage \<Rightarrow> error option outcome \<times> streamClient" where
  "receiveStreamItem P u streamItem =
     (case upstreamChannels u (streamItemMessage.InvocationID streamItem) of
        None \<Rightarrow> (Return None, u)
      | Some upChan \<Rightarrow>
          (let chanElm = chanElm_type (Elem upChan) in
           case streamItemMessage.Item streamItem of
             VFloat64 f \<Rightarrow>
               (case convertNumberToChannelType P chanElm f of
                  (chanVal, True) \<Rightarrow>
                    (Return None, Send u (streamItemMessage.InvocationID streamItem) upChan chanVal)
                | (chanVal, False) \<Rightarrow> (Return None, u))
           | item \<Rightarrow>
               (case TypeOf item of
                  None \<Rightarrow> (Panic, u)
                | Some it \<Rightarrow>
                    if Kind it = KSlice \<or> Kind it = KArray then
                      (case chanElm of
                         None \<Rightarrow> (Panic, u)
                       | Some ct \<Rightarrow>
                           if Kind ct = KSlice \<or> Kind ct = KArray then (Return None, u)
                           else (Return (Some (KindMismatch (Kind it) chanElm)), u))
                    else if assignable (Some it) (Elem upChan)
                      then (Return None,
                            Send u (streamItemMessage.InvocationID streamItem) upChan item)
                      else (Crash, u))))"

definition basic_numeric :: "go_type \<Rightarrow> bool" where
  "basic_numeric t \<longleftrightarrow>
     t \<in> {TInt, TInt8, TInt16, TInt32, TInt64, TUint, TUint8, TUint16, TUint32, TUint64,
          TFloat32, TFloat64}"

definition integer_type :: "go_type \<Rightarrow> bool" where
  "integer_type t \<longleftrightarrow>
     t \<in> {TInt, TInt8, TInt16, TInt32, TInt64, TUint, TUint8, TUint16, TUint32, TUint64}"

text \<open>\<^verbatim>\<open>reflect.Type.ChanDir\<close> and \<^verbatim>\<open>reflect.Type.Elem\<close> of a channel type.\<close>

fun ChanDir :: "go_type \<Rightarrow> chanDir option" where
  "ChanDir (TChan d t) = Some d"
| "ChanDir (TNamed name t) = ChanDir t"
| "ChanDir t = None"

fun chan_Elem :: "go_type \<Rightarrow> go_type" where
  "chan_Elem (TChan d t) = t"
| "chan_Elem (TNamed name t) = chan_Elem t"
| "chan_Elem t = t"

text \<open>
  \<^verbatim>\<open>buildChannelArgument\<close>.  \<open>chanCount\<close> counts the channel parameters bound so far and
  is never negative.  The new channel is made for the element type of \<open>argType\<close>, which
  is a channel type in that branch, and is registered under the stream id at index
  \<open>chanCount\<close>, which exists there.  The result is the argument (if any), whether the
  parameter is a client-streaming channel, and the error.
\<close>

definition buildChannelArgument ::
  "streamClient \<Rightarrow> invocationMessage \<Rightarrow> go_type \<Rightarrow> nat
     \<Rightarrow> (upchan option \<times> bool \<times> error option) \<times> streamClient" where
  "buildChannelArgument u invocation argType chanCount =
     (if Kind argType \<noteq> KChan \<or> ChanDir argType = Some SendDir then ((None, False, None), u)
      else if length (invocationMessage.StreamIds invocation) > chanCount then
        (let arg = \<lparr>Elem = chan_Elem argType, sent = []\<rparr>
         in ((Some arg, True, None),
             u\<lparr>upstreamChannels :=
                 (upstreamChannels u)(invocationMessage.StreamIds invocation ! chanCount \<mapsto> arg)\<rparr>))
      else ((None, True, Some (TooManyChanParams (invocationMessage.Target invocation))), u))"

section \<open>Byte streams\<close>

text \<open>The frame delimiter, ASCII 30 (record separator).\<close>

definition RS :: byte where
  "RS = CHR 0x1E"

text \<open>
  \<^verbatim>\<open>bytes.IndexByte\<close>: the index of the first occurrence, \<open>None\<close> where Go returns -1.
\<close>

fun IndexByte :: "byte list \<Rightarrow> byte \<Rightarrow> nat option" where
  "IndexByte [] c = None"
| "IndexByte (x # xs) c = (if x = c then Some 0 else map_option Suc (IndexByte xs c))"

text \<open>
  An \<^verbatim>\<open>io.Reader\<close> is what its successive \<^verbatim>\<open>Read\<close> calls will find: a delivery of bytes
  or a failure; when nothing is left, \<^verbatim>\<open>io.EOF\<close>.  \<open>Read n\<close> is a \<^verbatim>\<open>Read\<close> into a slice
  of length \<open>n\<close>: a delivery longer than the slice is cut, and the rest stays for the
  next call.
\<close>

datatype read_event = Data "byte list" | Fault

type_synonym reader = "read_event list"

fun Read :: "nat \<Rightarrow> reader \<Rightarrow> (error + byte list) \<times> reader" where
  "Read n [] = (Inl EOF, [])"
| "Read n (Fault # r) = (Inl ReadError, r)"
| "Read n (Data c # r) =
     (if length c \<le> n then (Inr c, r) else (Inr (take n c), Data (drop n c) # r))"

fun event_size :: "read_event \<Rightarrow> nat" where
  "event_size (Data c) = Suc (length c)"
| "event_size Fault = 1"

definition reader_size :: "reader \<Rightarrow> nat" where
  "reader_size r = sum_list (map event_size r)"

lemma Read_smaller:
  assumes "Read (Suc n) r = (Inr c, r')"
  shows "reader_size r' < reader_size r"
proof (cases r)
  case Nil
  with assms show ?thesis by simp
next
  case (Cons e rest)
  with assms show ?thesis
    by (cases e) (auto simp: reader_size_def split: if_splits)
qed

text \<open>
  An \<^verbatim>\<open>io.Writer\<close> and the \<^verbatim>\<open>Connection\<close> of a hub connection: the reader side, the
  slices passed to \<^verbatim>\<open>Write\<close> so far, oldest first, and which \<^verbatim>\<open>Write\<close> calls fail
  (counted from 0).
\<close>

record connection =
  incoming :: reader
  writes :: "byte list list"
  write_fails :: "nat \<Rightarrow> bool"

definition Write :: "connection \<Rightarrow> byte list \<Rightarrow> error option \<times> connection" where
  "Write w b =
     (if write_fails w (length (writes w)) then Some WriteError else None,
      w\<lparr>writes := writes w @ [b]\<rparr>)"

text \<open>A \<^verbatim>\<open>bytes.Buffer\<close> is its unread bytes.\<close>

type_synonym Buffer = "byte list"

text \<open>
  \<^verbatim>\<open>Buffer.ReadBytes\<close>: up to and including the first delimiter; without a delimiter,
  everything that was in the buffer, with \<^verbatim>\<open>io.EOF\<close>, and the buffer is left empty.
\<close>

definition ReadBytes :: "byte \<Rightarrow> Buffer \<Rightarrow> (byte list \<times> error option) \<times> Buffer" where
  "ReadBytes delim buf =
     (case IndexByte buf delim of
        None \<Rightarrow> ((buf, Some EOF), [])
      | Some i \<Rightarrow> ((take (Suc i) buf, None), drop (Suc i) buf))"

section \<open>The JSON hub protocol with a buffer (\<^verbatim>\<open>JsonHubProtocol\<close>)\<close>

text \<open>
  Two versions of the protocol are among the sources.  The one whose \<^verbatim>\<open>ReadMessage\<close>
  reads from a \<^verbatim>\<open>bytes.Buffer\<close> is the one the hub connection calls; its functions
  \<^verbatim>\<open>UnmarshalArgument\<close>, \<^verbatim>\<open>parseTextMessageFormat\<close> and \<^verbatim>\<open>WriteMessage\<close> carry the suffix
  \<open>0\<close> here.  The one with \<^verbatim>\<open>ParseMessage\<close> reads from an \<^verbatim>\<open>io.Reader\<close> and keeps the
  plain names.
\<close>

text \<open>
  The value an argument is unmarshalled into is a variable of type \<open>t\<close>; a successful
  call returns what it stored there.  The type assertion \<^verbatim>\<open>argument.(json.RawMessage)\<close>
  panics on any other dynamic type.
\<close>

definition UnmarshalArgument0 :: "json_lib \<Rightarrow> go_value \<Rightarrow> go_type \<Rightarrow> (error + go_value) outcome" where
  "UnmarshalArgument0 L argument t =
     (case argument of
        VRaw doc \<Rightarrow>
          (case Decode L t doc of
             Inl err \<Rightarrow> Return (Inl (LibraryError err))
           | Inr v \<Rightarrow> Return (Inr v))
      | _ \<Rightarrow> Panic)"

definition parseTextMessageFormat0 :: "Buffer \<Rightarrow> (byte list \<times> error option) \<times> Buffer" where
  "parseTextMessageFormat0 buf =
     (case ReadBytes RS buf of
        ((data, Some err), buf') \<Rightarrow> ((data, Some err), buf')
      | ((data, None), buf') \<Rightarrow> ((take (length data - 1) data, None), buf'))"

text \<open>
  The loop that copies \<^verbatim>\<open>jsonInvocation.Arguments\<close> into a \<^verbatim>\<open>[]interface{}\<close> and the
  struct literal that follows it, the same in both versions.
\<close>

definition invocation_of :: "jsonInvocationMessage \<Rightarrow> invocationMessage" where
  "invocation_of jsonInvocation =
     (let arguments = map VRaw (jsonInvocationMessage.Arguments jsonInvocation)
      in \<lparr>invocationMessage.Type = jsonInvocationMessage.Type jsonInvocation,
          Target = jsonInvocationMessage.Target jsonInvocation,
          InvocationID = jsonInvocationMessage.InvocationID jsonInvocation,
          Arguments = arguments,
          StreamIds = jsonInvocationMessage.StreamIds jsonInvocation\<rparr>)"

definition ReadMessage :: "json_lib \<Rightarrow> Buffer \<Rightarrow> (message option \<times> bool \<times> error option) \<times> Buffer" where
  "ReadMessage L buf =
     (case parseTextMessageFormat0 buf of
        ((data, Some err), buf') \<Rightarrow>
          if err = EOF then ((None, False, Some err), buf') else ((None, True, Some err), buf')
      | ((data, None), buf') \<Rightarrow>
          (case unmarshal_struct L (decode_hubMessage encoding_json) data of
             (message, Some err) \<Rightarrow> ((None, True, Some (LibraryError err)), buf')
           | (message, None) \<Rightarrow>
               if hubMessage.Type message = 1 \<or> hubMessage.Type message = 4 then
                 (case unmarshal_struct L (decode_jsonInvocationMessage encoding_json) data of
                    (jsonInvocation, err) \<Rightarrow>
                      ((Some (InvocationMessage (invocation_of jsonInvocation)), True,
                        map_option LibraryError err), buf'))
               else if hubMessage.Type message = 2 then
                 (case unmarshal_struct L (decode_streamItemMessage encoding_json) data of
                    (streamItem, err) \<Rightarrow>
                      ((Some (StreamItemMessage streamItem), True, map_option LibraryError err), buf'))
               else if hubMessage.Type message = 3 then
                 (case unmarshal_struct L (decode_completionMessage encoding_json) data of
                    (completion, err) \<Rightarrow>
                      ((Some (CompletionMessage completion), True, map_option LibraryError err), buf'))
               else if hubMessage.Type message = 5 then
                 (case unmarshal_struct L (decode_cancelInvocationMessage encoding_json) data of
                    (invocation, err) \<Rightarrow>
                      ((Some (CancelInvocationMessage invocation), True, map_option LibraryError err),
                       buf'))
               else ((Some (HubMessage message), True, None), buf')))"

text \<open>
  \<^verbatim>\<open>WriteMessage\<close> of this version: the message is encoded into a buffer of its own, the
  delimiter is appended (\<^verbatim>\<open>Buffer.WriteByte\<close> never fails), and the buffer is written in
  one \<^verbatim>\<open>Write\<close>.  If encoding fails nothing is written.
\<close>

definition WriteMessage0 :: "json_lib \<Rightarrow> message \<Rightarrow> connection \<Rightarrow> error option \<times> connection" where
  "WriteMessage0 L message writer =
     (case message_to_json L message of
        None \<Rightarrow> (Some (LibraryError UnsupportedTypeError), writer)
      | Some doc \<Rightarrow> Write writer (Encode L doc @ [RS]))"

section \<open>The JSON hub protocol with a reader (\<^verbatim>\<open>JSONHubProtocol\<close>)\<close>

definition UnmarshalArgument :: "json_lib \<Rightarrow> go_value \<Rightarrow> go_type \<Rightarrow> (error + go_value) outcome" where
  "UnmarshalArgument L argument t =
     (case argument of
        VRaw doc \<Rightarrow>
          (case Decode L t doc of
             Inl err \<Rightarrow> Return (Inl (jsonError (Marshal L doc) err))
           | Inr v \<Rightarrow> Return (Inr v))
      | _ \<Rightarrow> Panic)"

text \<open>
  \<^verbatim>\<open>parseTextMessageFormat\<close>: \<open>p\<close> is the slice of 1024 bytes every \<^verbatim>\<open>Read\<close> fills from
  its start, so that after a short read its tail still holds older bytes; \<open>data\<close> is
  what has been collected.  The delimiter is looked for in the whole of \<open>p\<close>.  Whatever
  the reader delivered behind the delimiter is not kept.
\<close>

function parseTextMessageFormat_loop ::
  "byte list \<Rightarrow> byte list \<Rightarrow> reader \<Rightarrow> (error + byte list) \<times> reader" where
  "parseTextMessageFormat_loop data p reader =
     (case Read 1024 reader of
        (Inl err, reader') \<Rightarrow> (Inl err, reader')
      | (Inr c, reader') \<Rightarrow>
          (let n = length c; p' = c @ drop n p in
           case IndexByte p' RS of
             Some i \<Rightarrow> (Inr (data @ take i p'), reader')
           | None \<Rightarrow> parseTextMessageFormat_loop (data @ take n p') p' reader'))"
  by pat_completeness auto
termination
proof (relation "measure (\<lambda>(data, p, reader). reader_size reader)")
  show "wf (measure (\<lambda>(data, p, reader). reader_size reader))" by simp
next
  fix data p :: "byte list" and reader :: reader and x reader' c n p'
  assume "(x, reader') = Read 1024 reader" and "x = Inr c"
  then have "Read (Suc 1023) reader = (Inr c, reader')" by simp
  then have "reader_size reader' < reader_size reader" by (rule Read_smaller)
  then show "((data @ take n p', p', reader'), (data, p, reader))
      \<in> measure (\<lambda>(data, p, reader). reader_size reader)" by simp
qed

definition parseTextMessageFormat :: "reader \<Rightarrow> (error + byte list) \<times> reader" where
  "parseTextMessageFormat reader =
     parseTextMessageFormat_loop [] (replicate 1024 (CHR 0x00)) reader"

text \<open>
  \<^verbatim>\<open>ParseMessage\<close>.  Only \<^verbatim>\<open>io.EOF\<close> makes it return at once; after any other error of
  the reader it goes on with \<open>data\<close> nil.  The generated \<^verbatim>\<open>MarshalEasyJSON\<close> either
  writes the message's document or, when a value has no JSON form, leaves an unfinished
  text.
\<close>

definition ParseMessage :: "json_lib \<Rightarrow> reader \<Rightarrow> (message option \<times> error option) \<times> reader" where
  "ParseMessage L buf =
     (case parseTextMessageFormat buf of
        (Inl EOF, buf') \<Rightarrow> ((None, Some EOF), buf')
      | (r, buf') \<Rightarrow>
          (let data = (case r of Inl err \<Rightarrow> [] | Inr d \<Rightarrow> d) in
           case unmarshal_struct L (decode_hubMessage easyjson) data of
             (message, Some err) \<Rightarrow> ((None, Some (jsonError data err)), buf')
           | (message, None) \<Rightarrow>
               if hubMessage.Type message = 1 \<or> hubMessage.Type message = 4 then
                 (case unmarshal_struct L (decode_jsonInvocationMessage easyjson) data of
                    (jsonInvocation, err) \<Rightarrow>
                      ((Some (InvocationMessage (invocation_of jsonInvocation)),
                        map_option (jsonError data) err), buf'))
               else if hubMessage.Type message = 2 then
                 (case unmarshal_struct L (decode_streamItemMessage easyjson) data of
                    (streamItem, err) \<Rightarrow>
                      ((Some (StreamItemMessage streamItem), map_option (jsonError data) err), buf'))
               else if hubMessage.Type message = 3 then
                 (case unmarshal_struct L (decode_completionMessage easyjson) data of
                    (completion, err) \<Rightarrow>
                      ((Some (CompletionMessage completion), map_option (jsonError data) err), buf'))
               else if hubMessage.Type message = 5 then
                 (case unmarshal_struct L (decode_cancelInvocationMessage easyjson) data of
                    (invocation, err) \<Rightarrow>
                      ((Some (CancelInvocationMessage invocation), map_option (jsonError data) err),
                       buf'))
               else if hubMessage.Type message = 7 then
                 (case unmarshal_struct L (decode_closeMessage easyjson) data of
                    (cm, err) \<Rightarrow>
                      ((Some (CloseMessage cm), map_option (jsonError data) err), buf'))
               else ((Some (HubMessage message), None), buf')))"

definition MarshalEasyJSON :: "json_lib \<Rightarrow> message \<Rightarrow> byte list" where
  "MarshalEasyJSON L message =
     (case message_to_json L message of
        None \<Rightarrow> Unfinished L message
      | Some doc \<Rightarrow> Marshal L doc)"

fun is_Marshaler :: "message \<Rightarrow> bool" where
  "is_Marshaler (Other v) = False"
| "is_Marshaler message = True"

definition WriteMessage :: "json_lib \<Rightarrow> message \<Rightarrow> connection \<Rightarrow> error option \<times> connection" where
  "WriteMessage L message writer =
     (if is_Marshaler message then
        (let b = MarshalEasyJSON L message @ [RS] in Write writer b)
      else (Some NotMarshaler, writer))"

section \<open>The hub connection\<close>

record defaultHubConnection =
  Connected :: "32 word"
  Connection :: connection

definition Start :: "defaultHubConnection \<Rightarrow> defaultHubConnection" where
  "Start c = (if Connected c = 0 then c\<lparr>Connected := 1\<rparr> else c)"

definition IsConnected :: "defaultHubConnection \<Rightarrow> bool" where
  "IsConnected c \<longleftrightarrow> Connected c = 1"

text \<open>
  The send operations return nothing; the error \<^verbatim>\<open>WriteMessage\<close> returns is dropped.
\<close>

definition Close :: "json_lib \<Rightarrow> defaultHubConnection \<Rightarrow> string \<Rightarrow> defaultHubConnection" where
  "Close L c err =
     (let c1 = c\<lparr>Connected := 0\<rparr>;
          closeMessage = \<lparr>closeMessage.Type = 7, Error = err, AllowReconnect = True\<rparr>
      in c1\<lparr>Connection := snd (WriteMessage0 L (CloseMessage closeMessage) (Connection c1))\<rparr>)"

definition SendInvocation ::
  "json_lib \<Rightarrow> defaultHubConnection \<Rightarrow> string \<Rightarrow> go_value list \<Rightarrow> defaultHubConnection" where
  "SendInvocation L c target args =
     (let invocationMessage =
            \<lparr>sendOnlyHubInvocationMessage.Type = 1, Target = target, Arguments = args\<rparr>
      in c\<lparr>Connection :=
             snd (WriteMessage0 L (SendOnlyHubInvocationMessage invocationMessage) (Connection c))\<rparr>)"

definition Ping :: "json_lib \<Rightarrow> defaultHubConnection \<Rightarrow> defaultHubConnection" where
  "Ping L c =
     (let pingMessage = \<lparr>hubMessage.Type = 6\<rparr>
      in c\<lparr>Connection := snd (WriteMessage0 L (HubMessage pingMessage) (Connection c))\<rparr>)"

definition Completion ::
  "json_lib \<Rightarrow> defaultHubConnection \<Rightarrow> string \<Rightarrow> go_value \<Rightarrow> string \<Rightarrow> defaultHubConnection" where
  "Completion L c ident result err =
     (let completionMessage =
            \<lparr>completionMessage.Type = 3, InvocationID = ident, Result = result, Error = err\<rparr>
      in c\<lparr>Connection :=
             snd (WriteMessage0 L (CompletionMessage completionMessage) (Connection c))\<rparr>)"

definition StreamItem ::
  "json_lib \<Rightarrow> defaultHubConnection \<Rightarrow> string \<Rightarrow> go_value \<Rightarrow> defaultHubConnection" where
  "StreamItem L c ident item =
     (let streamItemMessage = \<lparr>streamItemMessage.Type = 2, InvocationID = ident, Item = item\<rparr>
      in c\<lparr>Connection :=
             snd (WriteMessage0 L (StreamItemMessage streamItemMessage) (Connection c))\<rparr>)"

text \<open>
  \<^verbatim>\<open>Receive\<close>.  \<open>buf\<close>, \<open>data\<close> and \<open>n\<close> are the local variables of one call: the buffer
  starts empty, \<open>data\<close> is the slice of 4096 bytes \<^verbatim>\<open>Connection.Read\<close> fills from its
  start, \<open>n\<close> the length of the last read.  When \<^verbatim>\<open>ReadMessage\<close> reports an incomplete
  message it has emptied the buffer; the loop then writes \<^verbatim>\<open>data[:n]\<close>, the last read,
  back into it, reads again and appends the new bytes.  When the message is complete the
  call returns, and what is left in \<open>buf\<close> goes with it.
\<close>

function Receive_loop ::
  "json_lib \<Rightarrow> connection \<Rightarrow> Buffer \<Rightarrow> byte list \<Rightarrow> nat
     \<Rightarrow> (message option \<times> error option) \<times> connection" where
  "Receive_loop L conn buf data n =
     (case ReadMessage L buf of
        ((message, completed, err), buf1) \<Rightarrow>
          if \<not> completed then
            (let buf2 = buf1 @ take n data in
             case Read 4096 (incoming conn) of
               (Inr c, rest) \<Rightarrow>
                 (let n' = length c; data' = c @ drop n' data
                  in Receive_loop L (conn\<lparr>incoming := rest\<rparr>) (buf2 @ take n' data') data' n')
             | (Inl err', rest) \<Rightarrow> ((None, Some err'), conn\<lparr>incoming := rest\<rparr>))
          else ((message, err), conn))"
  by pat_completeness auto
termination
proof (relation "measure (\<lambda>(L, conn, buf, data, n). reader_size (incoming conn))")
  show "wf (measure (\<lambda>(L, conn, buf, data, n). reader_size (incoming conn)))" by simp
next
  fix L :: json_lib and conn :: connection and buf data :: "byte list" and n :: nat
    and x rest c and b1 :: "byte list" and d1 :: "byte list" and n1 :: nat
  assume "(x, rest) = Read 4096 (incoming conn)" and "x = Inr c"
  then have "Read (Suc 4095) (incoming conn) = (Inr c, rest)" by simp
  then have "reader_size rest < reader_size (incoming conn)" by (rule Read_smaller)
  then show "((L, conn\<lparr>incoming := rest\<rparr>, b1, d1, n1), (L, conn, buf, data, n))
      \<in> measure (\<lambda>(L, conn, buf, data, n). reader_size (incoming conn))" by simp
qed

definition Receive ::
  "json_lib \<Rightarrow> defaultHubConnection \<Rightarrow> (message option \<times> error option) \<times> defaultHubConnection" where
  "Receive L c =
     (case Receive_loop L (Connection c) [] (replicate 4096 (CHR 0x00)) 0 of
        (r, conn) \<Rightarrow> (r, c\<lparr>Connection := conn\<rparr>))"

section \<open>The invocation dispatcher\<close>

text \<open>
  Modelled from the spec: the dispatcher, which looks a target up, binds the arguments
  and sends completions, is not part of the sources at hand; of what it calls,
  \<open>buildChannelArgument\<close> and \<open>UnmarshalArgument\<close> are.  This follows section 4.4 of the
  specification up to the point where the method would be invoked: (1) the target is
  looked up without regard to case, and a missing method gives an error completion;
  (2) every parameter that is not a streaming one takes the next raw argument, decoded
  into the parameter's type, and a failure to decode aborts the call with an error
  completion; (3) a streaming parameter is bound to a fresh upstream channel for the next
  unused stream id, and an invocation that declares more stream ids than the method has
  streaming parameters is an error that aborts the call with an error completion.  An
  argument that is missing or makes the decoder panic aborts the call as well.
\<close>

text \<open>Modelled from the spec: method names are compared without regard to case.\<close>

definition lower :: "char \<Rightarrow> char" where
  "lower c =
     (case map_of (zip ''ABCDEFGHIJKLMNOPQRSTUVWXYZ'' ''abcdefghijklmnopqrstuvwxyz'') c of
        None \<Rightarrow> c
      | Some l \<Rightarrow> l)"

text \<open>
  Modelled from the spec: the method registry gives, for the lower-case name of a
  method, the types of its parameters in order.
\<close>

type_synonym registry = "string \<rightharpoonup> go_type list"

text \<open>Modelled from the spec: the text an error completion carries is never empty.\<close>

fun error_text :: "error \<Rightarrow> string" where
  "error_text (TooManyChanParams target) =
     ''method '' @ target @ '' has more chan parameters than the client will stream''"
| "error_text MissingArgument = ''missing argument''"
| "error_text ArgumentPanic = ''argument is not a raw message''"
| "error_text e = ''argument can not be decoded''"

text \<open>Modelled from the spec: the error completion for an invocation id.\<close>

definition error_completion :: "string \<Rightarrow> string \<Rightarrow> completionMessage" where
  "error_completion ident text =
     \<lparr>completionMessage.Type = 3, InvocationID = ident, Result = VNil, Error = text\<rparr>"

text \<open>
  Modelled from the spec: steps 2 and 3 of the dispatcher, parameter by parameter.
  \<open>args\<close> are the raw arguments not yet taken, \<open>chanCount\<close> the streaming parameters
  bound so far; the result is the bound arguments, a channel argument standing for its
  channel, and the final count.
\<close>

fun bindArguments ::
  "json_lib \<Rightarrow> streamClient \<Rightarrow> invocationMessage \<Rightarrow> go_type list \<Rightarrow> go_value list \<Rightarrow> nat
     \<Rightarrow> (error + go_value list \<times> nat) \<times> streamClient" where
  "bindArguments L u invocation [] args chanCount = (Inr ([], chanCount), u)"
| "bindArguments L u invocation (t # ts) args chanCount =
     (case buildChannelArgument u invocation t chanCount of
        ((arg, canClientStreaming, Some err), u') \<Rightarrow> (Inl err, u')
      | ((arg, True, None), u') \<Rightarrow>
          (case bindArguments L u' invocation ts args (Suc chanCount) of
             (Inl err, u'') \<Rightarrow> (Inl err, u'')
           | (Inr (vs, n), u'') \<Rightarrow> (Inr (VChan (chan_Elem t) # vs, n), u''))
      | ((arg, False, None), u') \<Rightarrow>
          (case args of
             [] \<Rightarrow> (Inl MissingArgument, u')
           | a # rest \<Rightarrow>
               (case UnmarshalArgument L a t of
                  Panic \<Rightarrow> (Inl ArgumentPanic, u')
                | Crash \<Rightarrow> (Inl ArgumentPanic, u')
                | Return (Inl err) \<Rightarrow> (Inl err, u')
                | Return (Inr v) \<Rightarrow>
                    (case bindArguments L u' invocation ts rest chanCount of
                       (Inl err, u'') \<Rightarrow> (Inl err, u'')
                     | (Inr (vs, n), u'') \<Rightarrow> (Inr (v # vs, n), u'')))))"

text \<open>
  Modelled from the spec: the outcome of dispatching an invocation is either the error
  completion sent back, the method not being invoked, or the invocation of the method
  with the bound arguments.
\<close>

datatype dispatched = Aborted completionMessage | Invoked "go_value list"

definition dispatch ::
  "json_lib \<Rightarrow> registry \<Rightarrow> streamClient \<Rightarrow> invocationMessage \<Rightarrow> dispatched \<times> streamClient" where
  "dispatch L methods u invocation =
     (case methods (map lower (invocationMessage.Target invocation)) of
        None \<Rightarrow>
          (Aborted (error_completion (invocationMessage.InvocationID invocation)
             (''unknown method '' @ invocationMessage.Target invocation)), u)
      | Some params \<Rightarrow>
          (case bindArguments L u invocation params (invocationMessage.Arguments invocation) 0 of
             (Inl err, u') \<Rightarrow>
               (Aborted (error_completion (invocationMessage.InvocationID invocation)
                  (error_text err)), u')
           | (Inr (vs, chanCount), u') \<Rightarrow>
               if length (invocationMessage.StreamIds invocation) > chanCount then
                 (Aborted (error_completion (invocationMessage.InvocationID invocation)
                    (''too many stream ids for method ''
                       @ invocationMessage.Target invocation)), u')
               else (Invoked vs, u')))"

text \<open>A streaming parameter: what \<open>buildChannelArgument\<close> takes for a client stream.\<close>

definition streaming :: "go_type \<Rightarrow> bool" where
  "streaming t \<longleftrightarrow> Kind t = KChan \<and> ChanDir t \<noteq> Some SendDir"

section \<open>Messages on the wire\<close>

text \<open>
  The bytes a reader will deliver before it fails or ends, whatever the cut into reads.
\<close>

fun pending :: "reader \<Rightarrow> byte list" where
  "pending [] = []"
| "pending (Data c # r) = c @ pending r"
| "pending (Fault # r) = []"

text \<open>
  The values the JSON decoder produces for an \<^verbatim>\<open>interface{}\<close>: nil, booleans,
  \<^verbatim>\<open>float64\<close> numbers, strings, and slices and maps of such values.
\<close>

fun json_native :: "go_value \<Rightarrow> bool" where
  "json_native VNil = True"
| "json_native (VBool b) = True"
| "json_native (VFloat64 r) = True"
| "json_native (VString s) = True"
| "json_native (VSlice xs) = list_all json_native xs"
| "json_native (VMap kvs) = list_all (\<lambda>kv. json_native (snd kv)) kvs"
| "json_native v = False"

fun is_raw :: "go_value \<Rightarrow> bool" where
  "is_raw (VRaw doc) = True"
| "is_raw v = False"

text \<open>
  A message of one of the seven kinds as it comes off the wire: its type tag is the one
  of its kind (1 or 4 for an invocation or stream invocation, 2 for a stream item, 3 for
  a completion, 5 for a cancellation, 7 for close; a ping is the bare \<^verbatim>\<open>hubMessage\<close>
  with tag 6, or any tag without a struct of its own), the arguments of an invocation
  are raw messages, and an item or a result is a value the JSON decoder produces.
\<close>

fun wire_message :: "message \<Rightarrow> bool" where
  "wire_message (HubMessage m) \<longleftrightarrow> hubMessage.Type m \<notin> {1, 2, 3, 4, 5, 7}"
| "wire_message (InvocationMessage m) \<longleftrightarrow>
     (invocationMessage.Type m = 1 \<or> invocationMessage.Type m = 4)
     \<and> list_all is_raw (invocationMessage.Arguments m)"
| "wire_message (StreamItemMessage m) \<longleftrightarrow>
     streamItemMessage.Type m = 2 \<and> json_native (streamItemMessage.Item m)"
| "wire_message (CompletionMessage m) \<longleftrightarrow>
     completionMessage.Type m = 3 \<and> json_native (completionMessage.Result m)"
| "wire_message (CancelInvocationMessage m) \<longleftrightarrow> cancelInvocationMessage.Type m = 5"
| "wire_message (CloseMessage m) \<longleftrightarrow> closeMessage.Type m = 7"
| "wire_message m \<longleftrightarrow> False"

section \<open>Example instances\<close>

definition example_platform :: platform where
  "example_platform =
     \<lparr>int_bits = 64, out_of_range = (\<lambda>t r. 0), to_float32 = (\<lambda>r. r), Sprint = (\<lambda>r. ''?'')\<rparr>"

definition example_client :: streamClient where
  "example_client =
     \<lparr>upstreamChannels =
        [''s1'' \<mapsto> \<lparr>Elem = TInt8, sent = []\<rparr>, ''s2'' \<mapsto> \<lparr>Elem = TSlice TInt, sent = []\<rparr>]\<rparr>"

subsection \<open>A small JSON library\<close>

text \<open>
  An instance of the library parameter for the examples: compact output, white space
  allowed between tokens on input, strings without escapes, numbers without exponent,
  written with one digit of fraction when they are not whole.
\<close>

definition quote :: char where
  "quote = CHR 0x22"

fun show_nat :: "nat \<Rightarrow> string" where
  "show_nat n =
     (if n < 10 then [''0123456789'' ! n] else show_nat (n div 10) @ [''0123456789'' ! (n mod 10)])"

fun commas :: "string list \<Rightarrow> string" where
  "commas [] = []"
| "commas [x] = x"
| "commas (x # y # ys) = x @ '','' @ commas (y # ys)"

fun print_json :: "json \<Rightarrow> string" where
  "print_json JNull = ''null''"
| "print_json (JBool b) = (if b then ''true'' else ''false'')"
| "print_json (JInt n) = (if n < 0 then ''-'' else []) @ show_nat (nat \<bar>n\<bar>)"
| "print_json (JNumber r) =
     (if r < 0 then ''-'' else []) @ show_nat (nat \<lfloor>\<bar>r\<bar>\<rfloor>) @ ''.''
       @ show_nat (nat \<lfloor>10 * (\<bar>r\<bar> - of_int \<lfloor>\<bar>r\<bar>\<rfloor>)\<rfloor>)"
| "print_json (JString s) = quote # s @ [quote]"
| "print_json (JArray xs) = ''['' @ commas (map print_json xs) @ '']''"
| "print_json (JObject kvs) =
     ''{'' @ commas (map (\<lambda>kv. quote # fst kv @ [quote] @ '':'' @ print_json (snd kv)) kvs) @ ''}''"

definition is_space :: "char \<Rightarrow> bool" where
  "is_space c \<longleftrightarrow> c = CHR '' '' \<or> c = CHR 0x0A \<or> c = CHR 0x0D \<or> c = CHR 0x09"

fun skip_ws :: "string \<Rightarrow> string" where
  "skip_ws [] = []"
| "skip_ws (c # cs) = (if is_space c then skip_ws cs else c # cs)"

fun digit_value :: "char \<Rightarrow> nat option" where
  "digit_value c = IndexByte ''0123456789'' c"

fun parse_digits :: "nat \<Rightarrow> string \<Rightarrow> nat \<times> string" where
  "parse_digits acc [] = (acc, [])"
| "parse_digits acc (c # cs) =
     (case digit_value c of None \<Rightarrow> (acc, c # cs) | Some d \<Rightarrow> parse_digits (10 * acc + d) cs)"

text \<open>A number: digits, then perhaps a point and more digits.\<close>

definition parse_number :: "string \<Rightarrow> (json \<times> string) option" where
  "parse_number s =
     (case parse_digits 0 s of
        (n, rest) \<Rightarrow>
          (case rest of
             [] \<Rightarrow> Some (JInt (int n), rest)
           | c # cs \<Rightarrow>
               if c = CHR ''.'' then
                 (case parse_digits 0 cs of
                    (f, rest') \<Rightarrow>
                      if length rest' = length cs then None
                      else Some (JNumber (of_nat n + of_nat f / 10 ^ (length cs - length rest')),
                                 rest'))
               else Some (JInt (int n), rest)))"

definition negate :: "json \<Rightarrow> json" where
  "negate doc = (case doc of JInt n \<Rightarrow> JInt (- n) | JNumber r \<Rightarrow> JNumber (- r) | d \<Rightarrow> d)"

fun parse_chars :: "string \<Rightarrow> (string \<times> string) option" where
  "parse_chars [] = None"
| "parse_chars (c # cs) =
     (if c = quote then Some ([], cs)
      else case parse_chars cs of None \<Rightarrow> None | Some (s, rest) \<Rightarrow> Some (c # s, rest))"

fun literal :: "string \<Rightarrow> string \<Rightarrow> string option" where
  "literal [] s = Some s"
| "literal (x # xs) [] = None"
| "literal (x # xs) (c # cs) = (if x = c then literal xs cs else None)"

fun parse_value :: "nat \<Rightarrow> string \<Rightarrow> (json \<times> string) option"
  and parse_elements :: "nat \<Rightarrow> string \<Rightarrow> (json list \<times> string) option"
  and parse_members :: "nat \<Rightarrow> string \<Rightarrow> ((string \<times> json) list \<times> string) option" where
  "parse_value 0 s = None"
| "parse_value (Suc k) s =
     (case skip_ws s of
        [] \<Rightarrow> None
      | c # cs \<Rightarrow>
          if c = CHR ''['' then
            (case literal '']'' (skip_ws cs) of
               Some rest \<Rightarrow> Some (JArray [], rest)
             | None \<Rightarrow>
                 (case parse_elements k cs of
                    None \<Rightarrow> None
                  | Some (xs, rest) \<Rightarrow> Some (JArray xs, rest)))
          else if c = CHR ''{'' then
            (case literal ''}'' (skip_ws cs) of
               Some rest \<Rightarrow> Some (JObject [], rest)
             | None \<Rightarrow>
                 (case parse_members k cs of
                    None \<Rightarrow> None
                  | Some (kvs, rest) \<Rightarrow> Some (JObject kvs, rest)))
          else if c = quote then
            (case parse_chars cs of
               None \<Rightarrow> None
             | Some (str, rest) \<Rightarrow> Some (JString str, rest))
          else if c = CHR ''-'' then
            (case cs of
               [] \<Rightarrow> None
             | d # ds \<Rightarrow>
                 if digit_value d = None then None
                 else (case parse_number cs of
                         None \<Rightarrow> None
                       | Some (doc, rest) \<Rightarrow> Some (negate doc, rest)))
          else if digit_value c \<noteq> None then parse_number (c # cs)
          else
            (case literal ''null'' (c # cs) of
               Some rest \<Rightarrow> Some (JNull, rest)
             | None \<Rightarrow>
                 (case literal ''true'' (c # cs) of
                    Some rest \<Rightarrow> Some (JBool True, rest)
                  | None \<Rightarrow>
                      (case literal ''false'' (c # cs) of
                         Some rest \<Rightarrow> Some (JBool False, rest)
                       | None \<Rightarrow> None))))"
| "parse_elements 0 s = None"
| "parse_elements (Suc k) s =
     (case parse_value k s of
        None \<Rightarrow> None
      | Some (x, rest) \<Rightarrow>
          (case skip_ws rest of
             [] \<Rightarrow> None
           | c # cs \<Rightarrow>
               if c = CHR '','' then
                 (case parse_elements k cs of
                    None \<Rightarrow> None
                  | Some (xs, rest') \<Rightarrow> Some (x # xs, rest'))
               else if c = CHR '']'' then Some ([x], cs)
               else None))"
| "parse_members 0 s = None"
| "parse_members (Suc k) s =
     (case literal [quote] (skip_ws s) of
        None \<Rightarrow> None
      | Some s1 \<Rightarrow>
          (case parse_chars s1 of
             None \<Rightarrow> None
           | Some (name, s2) \<Rightarrow>
               (case literal '':'' (skip_ws s2) of
                  None \<Rightarrow> None
                | Some s3 \<Rightarrow>
                    (case parse_value k s3 of
                       None \<Rightarrow> None
                     | Some (x, rest) \<Rightarrow>
                         (case skip_ws rest of
                            [] \<Rightarrow> None
                          | c # cs \<Rightarrow>
                              if c = CHR '','' then
                                (case parse_members k cs of
                                   None \<Rightarrow> None
                                 | Some (kvs, rest') \<Rightarrow> Some ((name, x) # kvs, rest'))
                              else if c = CHR ''}'' then Some ([(name, x)], cs)
                              else None)))))"

definition parse_json :: "byte list \<Rightarrow> json_error + json" where
  "parse_json text =
     (case parse_value (Suc (length text)) text of
        None \<Rightarrow> Inl SyntaxError
      | Some (doc, rest) \<Rightarrow> if skip_ws rest = [] then Inr doc else Inl SyntaxError)"

fun example_Decode :: "go_type \<Rightarrow> json \<Rightarrow> json_error + go_value" where
  "example_Decode TInterface doc = Inr (json_to_value doc)"
| "example_Decode TString (JString s) = Inr (VString s)"
| "example_Decode TBool (JBool b) = Inr (VBool b)"
| "example_Decode TFloat64 (JInt n) = Inr (VFloat64 (of_int n))"
| "example_Decode TFloat64 (JNumber r) = Inr (VFloat64 r)"
| "example_Decode TInt (JInt n) =
     (if - (2 ^ 63) \<le> n \<and> n < 2 ^ 63 then Inr (VInt TInt n) else Inl UnmarshalTypeError)"
| "example_Decode t doc = Inl UnmarshalTypeError"

definition example_lib :: json_lib where
  "example_lib =
     \<lparr>Marshal = print_json, Unmarshal = parse_json, Decode = example_Decode,
      Plain = (\<lambda>r. True), Unfinished = (\<lambda>m. [])\<rparr>"

subsection \<open>Connections\<close>

text \<open>
  A started hub connection whose transport will deliver the given reads and whose writes
  succeed, and one whose writes all fail.
\<close>

definition example_hub :: "reader \<Rightarrow> defaultHubConnection" where
  "example_hub r =
     Start \<lparr>Connected = 0,
            Connection = \<lparr>incoming = r, writes = [], write_fails = (\<lambda>k. False)\<rparr>\<rparr>"

definition broken_hub :: defaultHubConnection where
  "broken_hub =
     Start \<lparr>Connected = 0,
            Connection = \<lparr>incoming = [], writes = [], write_fails = (\<lambda>k. True)\<rparr>\<rparr>"

subsection \<open>A method with a client stream\<close>

text \<open>
  The method \<^verbatim>\<open>Upload(name string, items <-chan int)\<close>, and an invocation of it that
  declares two stream ids.
\<close>

definition example_methods :: registry where
  "example_methods = [''upload'' \<mapsto> [TString, TChan RecvDir TInt]]"

definition example_invocation :: invocationMessage where
  "example_invocation =
     \<lparr>invocationMessage.Type = 1, Target = ''Upload'', InvocationID = ''77'',
      Arguments = [VRaw (JString ''a'')], StreamIds = [''s1'', ''s2'']\<rparr>"

subsection \<open>One message of every kind\<close>

text \<open>
  A writer whose writes succeed, the frame \<open>WriteMessage\<close> passes to it for a message,
  and messages of the seven kinds: an invocation, a stream invocation, a stream item, a
  completion with a result and one with an error, a cancellation, a ping and a close.
\<close>

definition example_writer :: connection where
  "example_writer = \<lparr>incoming = [], writes = [], write_fails = (\<lambda>k. False)\<rparr>"

definition sent_frame :: "message \<Rightarrow> byte list" where
  "sent_frame m = last (writes (snd (WriteMessage example_lib m example_writer)))"

definition example_messages :: "message list" where
  "example_messages =
     [InvocationMessage \<lparr>invocationMessage.Type = 1, Target = ''simpleint'', InvocationID = ''666'',
        Arguments = [VRaw (JInt 314)], StreamIds = []\<rparr>,
      InvocationMessage \<lparr>invocationMessage.Type = 4, Target = ''upload'', InvocationID = [],
        Arguments = [VRaw (JString ''a''), VRaw (JArray [JBool True, JNull])],
        StreamIds = [''s1'', ''s2'']\<rparr>,
      StreamItemMessage \<lparr>streamItemMessage.Type = 2, InvocationID = ''s1'',
        Item = VSlice [VFloat64 1, VFloat64 (- 3.5), VString ''two'', VMap [(''k'', VBool False)]]\<rparr>,
      CompletionMessage \<lparr>completionMessage.Type = 3, InvocationID = ''666'',
        Result = VFloat64 315, Error = []\<rparr>,
      CompletionMessage \<lparr>completionMessage.Type = 3, InvocationID = ''555'',
        Result = VNil, Error = ''no''\<rparr>,
      CancelInvocationMessage \<lparr>cancelInvocationMessage.Type = 5, InvocationID = ''mfg''\<rparr>,
      HubMessage \<lparr>hubMessage.Type = 6\<rparr>,
      CloseMessage \<lparr>closeMessage.Type = 7, Error = ''bye'', AllowReconnect = True\<rparr>]"


section \<open>Properties of the stream client\<close>

lemma convertNumber_basic:
  assumes "basic_numeric t"
  shows "\<exists>v. convertNumberToChannelType P (chanElm_type t) f = (v, True) \<and> TypeOf v = Some t
     \<and> (integer_type t \<longrightarrow> v = VInt t (float_to_int P t f))
     \<and> (t = TFloat32 \<longrightarrow> v = VFloat32 (to_float32 P f))
     \<and> (t = TFloat64 \<longrightarrow> v = VFloat64 f)"
  using assms unfolding basic_numeric_def integer_type_def by auto

text \<open>
  Claim C7.  A stream item whose invocation id has no registered upstream channel is a
  no-op: \<open>receiveStreamItem\<close> returns the nil error, and the stream client, that is the
  registry with every registered channel and what was sent on it, is unchanged.
\<close>

theorem receiveStreamItem_unknown_id:
  assumes "upstreamChannels u (streamItemMessage.InvocationID streamItem) = None"
  shows "receiveStreamItem P u streamItem = (Return None, u)"
  using assms by (simp add: receiveStreamItem_def)

theorem receiveStreamItem_unknown_id_witness:
  "upstreamChannels example_client ''s3'' = None \<and>
   receiveStreamItem example_platform example_client
       \<lparr>streamItemMessage.Type = 2, InvocationID = ''s3'', Item = VFloat64 1\<rparr>
     = (Return None, example_client)"
proof -
  have h: "upstreamChannels example_client
      (streamItemMessage.InvocationID \<lparr>streamItemMessage.Type = 2, InvocationID = ''s3'', Item = VFloat64 1\<rparr>) = None"
    by (simp add: example_client_def)
  from receiveStreamItem_unknown_id [OF h, of example_platform] h show ?thesis by simp
qed

text \<open>
  Claim C5.  When the item of a stream-item message is a \<^verbatim>\<open>float64\<close> and the channel
  registered under the message's id has a basic numeric element type, the item is not
  rejected: \<open>receiveStreamItem\<close> returns the nil error, and in the state it leaves the
  channel registered under that id is the channel as it was with exactly one value added
  at the end of what was sent on it, every other entry of the registry being as before.
  The value has the channel's element type; for an integer element type it is the number
  with its fraction cut off, whenever the type can represent that integer; for
  \<^verbatim>\<open>float32\<close> it is the number rounded, for \<^verbatim>\<open>float64\<close> the number itself.
\<close>

theorem receiveStreamItem_number_narrowed:
  assumes "upstreamChannels u (streamItemMessage.InvocationID streamItem) = Some upChan"
    and "basic_numeric (Elem upChan)"
    and "streamItemMessage.Item streamItem = VFloat64 f"
  shows "\<exists>v u'. receiveStreamItem P u streamItem = (Return None, u')
         \<and> upstreamChannels u' (streamItemMessage.InvocationID streamItem)
             = Some \<lparr>Elem = Elem upChan, sent = sent upChan @ [v]\<rparr>
         \<and> (\<forall>k. k \<noteq> streamItemMessage.InvocationID streamItem
               \<longrightarrow> upstreamChannels u' k = upstreamChannels u k)
         \<and> TypeOf v = Some (Elem upChan)
         \<and> (integer_type (Elem upChan) \<and> representable P (Elem upChan) (toward_zero f)
              \<longrightarrow> v = VInt (Elem upChan) (toward_zero f))
         \<and> (Elem upChan = TFloat32 \<longrightarrow> v = VFloat32 (to_float32 P f))
         \<and> (Elem upChan = TFloat64 \<longrightarrow> v = VFloat64 f)"
proof -
  let ?id = "streamItemMessage.InvocationID streamItem"
  from convertNumber_basic [OF assms(2), of P f] obtain v where
    v: "convertNumberToChannelType P (chanElm_type (Elem upChan)) f = (v, True)"
      "TypeOf v = Some (Elem upChan)"
      "integer_type (Elem upChan) \<longrightarrow> v = VInt (Elem upChan) (float_to_int P (Elem upChan) f)"
      "Elem upChan = TFloat32 \<longrightarrow> v = VFloat32 (to_float32 P f)"
      "Elem upChan = TFloat64 \<longrightarrow> v = VFloat64 f"
    by blast
  define u' where
    "u' = u\<lparr>upstreamChannels := (upstreamChannels u)(?id \<mapsto> upChan\<lparr>sent := sent upChan @ [v]\<rparr>)\<rparr>"
  have "receiveStreamItem P u streamItem = (Return None, u')"
    using assms(1,3) v(1)
    by (simp add: receiveStreamItem_def Send_def u'_def Let_def del: chanElm_type.simps)
  moreover have "upstreamChannels u' ?id = Some \<lparr>Elem = Elem upChan, sent = sent upChan @ [v]\<rparr>"
    by (simp add: u'_def)
  moreover have "\<forall>k. k \<noteq> ?id \<longrightarrow> upstreamChannels u' k = upstreamChannels u k"
    by (simp add: u'_def)
  moreover have "integer_type (Elem upChan) \<and> representable P (Elem upChan) (toward_zero f)
      \<longrightarrow> v = VInt (Elem upChan) (toward_zero f)"
    using v(3) by (simp add: float_to_int_def)
  ultimately show ?thesis using v(2,4,5) by blast
qed

theorem receiveStreamItem_number_narrowed_witness:
  "receiveStreamItem example_platform example_client
       \<lparr>streamItemMessage.Type = 2, InvocationID = ''s1'', Item = VFloat64 (- 3.7)\<rparr>
     = (Return None,
        \<lparr>upstreamChannels =
           [''s1'' \<mapsto> \<lparr>Elem = TInt8, sent = [VInt TInt8 (- 3)]\<rparr>,
            ''s2'' \<mapsto> \<lparr>Elem = TSlice TInt, sent = []\<rparr>]\<rparr>)"
proof -
  let ?m = "\<lparr>streamItemMessage.Type = 2, InvocationID = ''s1'', Item = VFloat64 (- 3.7)\<rparr>"
  let ?c = "\<lparr>Elem = TInt8, sent = []\<rparr>"
  have h1: "upstreamChannels example_client (streamItemMessage.InvocationID ?m) = Some ?c"
    by (simp add: example_client_def)
  have h2: "basic_numeric (Elem ?c)" by (simp add: basic_numeric_def)
  have h3: "streamItemMessage.Item ?m = VFloat64 (- 3.7)" by simp
  have t: "toward_zero (- 3.7) = - 3" unfolding toward_zero_def by simp
  have r: "integer_type (Elem ?c) \<and> representable example_platform (Elem ?c) (toward_zero (- 3.7))"
    by (simp add: t integer_type_def representable_def)
  from receiveStreamItem_number_narrowed [OF h1 h2 h3, of example_platform] r t
  obtain u' where u': "receiveStreamItem example_platform example_client ?m = (Return None, u')"
      "upstreamChannels u' ''s1'' = Some \<lparr>Elem = TInt8, sent = [VInt TInt8 (- 3)]\<rparr>"
      "\<forall>k. k \<noteq> ''s1'' \<longrightarrow> upstreamChannels u' k = upstreamChannels example_client k"
    by auto
  have "upstreamChannels u'
      = [''s1'' \<mapsto> \<lparr>Elem = TInt8, sent = [VInt TInt8 (- 3)]\<rparr>,
         ''s2'' \<mapsto> \<lparr>Elem = TSlice TInt, sent = []\<rparr>]"
  proof
    fix k show "upstreamChannels u' k
      = [''s1'' \<mapsto> \<lparr>Elem = TInt8, sent = [VInt TInt8 (- 3)]\<rparr>,
         ''s2'' \<mapsto> \<lparr>Elem = TSlice TInt, sent = []\<rparr>] k"
      using u'(2,3) by (cases "k = ''s1''") (simp_all add: example_client_def)
  qed
  then have "u' = \<lparr>upstreamChannels =
           [''s1'' \<mapsto> \<lparr>Elem = TInt8, sent = [VInt TInt8 (- 3)]\<rparr>,
            ''s2'' \<mapsto> \<lparr>Elem = TSlice TInt, sent = []\<rparr>]\<rparr>"
    by (cases u') simp
  with u'(1) show ?thesis by simp
qed

text \<open>
  Claim C6.  The claim asks that a slice or array item arriving for a channel whose
  element type is a slice or an array be converted and sent.  In the code that case
  leaves the inner \<^verbatim>\<open>switch\<close> by \<^verbatim>\<open>break\<close> and reaches \<^verbatim>\<open>return nil\<close>: the only
  \<^verbatim>\<open>Send\<close> for an item that is not a \<^verbatim>\<open>float64\<close> sits in the \<^verbatim>\<open>default\<close> case of the
  outer \<^verbatim>\<open>switch\<close>, which a slice never reaches.  Here the item \<^verbatim>\<open>[1, 2]\<close> arrives for
  the channel \<open>s2\<close> of element type \<^verbatim>\<open>[]int\<close>: no error, and nothing is sent.
\<close>

theorem receiveStreamItem_slice_dropped:
  "receiveStreamItem example_platform example_client
       \<lparr>streamItemMessage.Type = 2, InvocationID = ''s2'', Item = VSlice [VFloat64 1, VFloat64 2]\<rparr>
     = (Return None, example_client)
   \<and> upstreamChannels example_client ''s2'' = Some \<lparr>Elem = TSlice TInt, sent = []\<rparr>"
  by (simp add: receiveStreamItem_def example_client_def)

section \<open>Properties of the protocol and of the hub connection\<close>

lemma IndexByte_None: "c \<notin> set xs \<Longrightarrow> IndexByte xs c = None"
  by (induction xs) auto

lemma IndexByte_first: "c \<notin> set xs \<Longrightarrow> IndexByte (xs @ c # ys) c = Some (length xs)"
  by (induction xs) auto

text \<open>
  Claim C1.  The claim asks that receiving return the same frames however the transport
  cuts the bytes into reads, nothing lost between reads or between calls.  \<open>Receive\<close>
  refills its buffer with the last read only, and its buffer lives for one call.  The
  frame \<^verbatim>\<open>{"type":6}\<close> arriving in one read is received as the ping message; arriving in
  three reads, the first read is lost and what is left does not parse; of two frames
  arriving in one read, the first is received and the second is gone when \<open>Receive\<close> is
  called again.  \<open>ParseMessage\<close> of the version with a reader drops what a read
  delivers behind the delimiter as well: of two frames in one read it returns the first
  and then meets the end of the stream, while it returns both when each comes in a read
  of its own.
\<close>

theorem Receive_depends_on_chunks:
  \<open>fst (Receive example_lib (example_hub [Data (''{"type":6}'' @ [RS])]))
     = (Some (HubMessage \<lparr>hubMessage.Type = 6\<rparr>), None)
   \<and> fst (Receive example_lib (example_hub [Data ''{"ty'', Data ''pe":6'', Data (''}'' @ [RS])]))
     = (None, Some (LibraryError SyntaxError))
   \<and> fst (Receive example_lib
            (example_hub [Data (''{"type":6}'' @ [RS] @ ''{"type":6}'' @ [RS])]))
     = (Some (HubMessage \<lparr>hubMessage.Type = 6\<rparr>), None)
   \<and> fst (Receive example_lib
            (snd (Receive example_lib
               (example_hub [Data (''{"type":6}'' @ [RS] @ ''{"type":6}'' @ [RS])]))))
     = (None, Some EOF)
   \<and> fst (ParseMessage example_lib
            (snd (ParseMessage example_lib [Data (''{"type":6}'' @ [RS] @ ''{"type":6}'' @ [RS])])))
     = (None, Some EOF)
   \<and> fst (ParseMessage example_lib
            (snd (ParseMessage example_lib
               [Data (''{"type":6}'' @ [RS]), Data (''{"type":6}'' @ [RS])])))
     = (Some (HubMessage \<lparr>hubMessage.Type = 6\<rparr>), None)\<close>
  by (simp add: Receive_def example_hub_def Start_def ReadMessage_def parseTextMessageFormat0_def
      ReadBytes_def RS_def example_lib_def unmarshal_struct_def parse_json_def parse_number_def
      quote_def is_space_def decode_hubMessage_def find_field_def store_def encoding_json_def
      easyjson_def type_error_def ParseMessage_def parseTextMessageFormat_def)

text \<open>
  Claim C3, as the code has it.  Each of the send operations \<open>SendInvocation\<close>,
  \<open>StreamItem\<close>, \<open>Completion\<close> and \<open>Ping\<close> builds its message and, when the message has
  a JSON form, passes its frame, the encoded message followed by the delimiter, to the
  transport in exactly one write; when a value of the message has no JSON form nothing
  is written.  The operation returns nothing, so the error of the write is dropped, and
  it never touches \<open>Connected\<close>: in every state of the connection, whether the
  transport fails the write or not, \<open>IsConnected\<close> answers after the call what it
  answered before.
\<close>

theorem sends_keep_state:
  "Connected (SendInvocation L c target args) = Connected c
   \<and> IsConnected (SendInvocation L c target args) = IsConnected c
   \<and> writes (Connection (SendInvocation L c target args))
       = writes (Connection c)
         @ (case message_to_json L (SendOnlyHubInvocationMessage
                  \<lparr>sendOnlyHubInvocationMessage.Type = 1, Target = target, Arguments = args\<rparr>) of
              None \<Rightarrow> []
            | Some doc \<Rightarrow> [Encode L doc @ [RS]])
   \<and> Connected (StreamItem L c ident item) = Connected c
   \<and> IsConnected (StreamItem L c ident item) = IsConnected c
   \<and> writes (Connection (StreamItem L c ident item))
       = writes (Connection c)
         @ (case message_to_json L (StreamItemMessage
                  \<lparr>streamItemMessage.Type = 2, InvocationID = ident, Item = item\<rparr>) of
              None \<Rightarrow> []
            | Some doc \<Rightarrow> [Encode L doc @ [RS]])
   \<and> Connected (Completion L c ident result err) = Connected c
   \<and> IsConnected (Completion L c ident result err) = IsConnected c
   \<and> writes (Connection (Completion L c ident result err))
       = writes (Connection c)
         @ (case message_to_json L (CompletionMessage
                  \<lparr>completionMessage.Type = 3, InvocationID = ident, Result = result,
                   Error = err\<rparr>) of
              None \<Rightarrow> []
            | Some doc \<Rightarrow> [Encode L doc @ [RS]])
   \<and> Connected (Ping L c) = Connected c
   \<and> IsConnected (Ping L c) = IsConnected c
   \<and> writes (Connection (Ping L c))
       = writes (Connection c) @ [Encode L (JObject [(''type'', JInt 6)]) @ [RS]]"
proof -
  have w: "writes (snd (WriteMessage0 L m w))
      = writes w @ (case message_to_json L m of None \<Rightarrow> [] | Some doc \<Rightarrow> [Encode L doc @ [RS]])"
    for m w
    by (simp add: WriteMessage0_def Write_def split: option.split)
  have "writes (Connection (Ping L c))
      = writes (Connection c) @ [Encode L (JObject [(''type'', JInt 6)]) @ [RS]]"
    by (simp add: Ping_def w type_member_def)
  then show ?thesis
    by (simp add: SendInvocation_def StreamItem_def Completion_def Ping_def IsConnected_def
        Let_def w)
qed

text \<open>
  The claim as stated fails: on a started connection whose transport fails every write,
  the write of \<open>Ping\<close> fails, the connection still counts as connected afterwards, and a
  second \<open>Ping\<close> is written to the transport again.
\<close>

theorem failed_send_stays_connected:
  "fst (WriteMessage0 example_lib (HubMessage \<lparr>hubMessage.Type = 6\<rparr>) (Connection broken_hub))
     = Some WriteError
   \<and> IsConnected (Ping example_lib broken_hub)
   \<and> length (writes (Connection (Ping example_lib (Ping example_lib broken_hub)))) = 2"
  by (simp add: broken_hub_def Start_def Ping_def IsConnected_def WriteMessage0_def Write_def
      type_member_def)



text \<open>
  Claim C9.  \<open>UnmarshalArgument\<close>, in both versions of the protocol, panics exactly when
  the dynamic type of its argument is not \<^verbatim>\<open>json.RawMessage\<close>; when it returns, the
  argument was a raw message, and the result is either the decoded value or a
  \<^verbatim>\<open>jsonError\<close> holding the raw text and the library's error.
\<close>

theorem UnmarshalArgument_panics:
  "(UnmarshalArgument L argument t = Panic \<longleftrightarrow> (\<forall>doc. argument \<noteq> VRaw doc))
   \<and> (UnmarshalArgument0 L argument t = Panic \<longleftrightarrow> (\<forall>doc. argument \<noteq> VRaw doc))
   \<and> (\<forall>r. UnmarshalArgument L argument t = Return r \<longrightarrow>
         (\<exists>doc. argument = VRaw doc
            \<and> (case r of
                  Inr v \<Rightarrow> Decode L t doc = Inr v
                | Inl e \<Rightarrow> \<exists>err. Decode L t doc = Inl err \<and> e = jsonError (Marshal L doc) err)))"
  by (cases argument) (auto simp: UnmarshalArgument_def UnmarshalArgument0_def split: sum.splits)

theorem UnmarshalArgument_panics_witness:
  \<open>UnmarshalArgument example_lib (VString ''314'') TInt = Panic
   \<and> UnmarshalArgument0 example_lib (VFloat64 314) TInt = Panic
   \<and> UnmarshalArgument example_lib (VRaw (JInt 314)) TInt = Return (Inr (VInt TInt 314))
   \<and> UnmarshalArgument example_lib (VRaw (JString ''CantParse'')) TInt
       = Return (Inl (jsonError (quote # ''CantParse'' @ [quote]) UnmarshalTypeError))\<close>
proof -
  have "UnmarshalArgument example_lib (VString ''314'') TInt = Panic"
    using UnmarshalArgument_panics [of example_lib "VString ''314''" TInt] by simp
  moreover have "UnmarshalArgument0 example_lib (VFloat64 314) TInt = Panic"
    using UnmarshalArgument_panics [of example_lib "VFloat64 314" TInt] by simp
  moreover have "UnmarshalArgument example_lib (VRaw (JInt 314)) TInt
      = Return (Inr (VInt TInt 314))"
    by (simp add: UnmarshalArgument_def example_lib_def)
  moreover have "UnmarshalArgument example_lib (VRaw (JString ''CantParse'')) TInt
      = Return (Inl (jsonError (quote # ''CantParse'' @ [quote]) UnmarshalTypeError))"
    by (simp add: UnmarshalArgument_def example_lib_def)
  ultimately show ?thesis by blast
qed

text \<open>
  Claim C10.  Whatever the state of the connection and whatever the error text, after
  \<open>Close\<close> the connection is not connected, and exactly one more slice has been passed
  to the transport's \<^verbatim>\<open>Write\<close>: the encoding of the close message of type 7 with that
  error text and \<^verbatim>\<open>allowReconnect\<close> true, followed by the delimiter.
\<close>

theorem Close_always:
  "\<not> IsConnected (Close L c err)
   \<and> message_to_json L
         (CloseMessage \<lparr>closeMessage.Type = 7, Error = err, AllowReconnect = True\<rparr>)
       = Some (JObject ([(''type'', JInt 7)] @ omitempty (err = []) ''error'' (JString err)
                 @ [(''allowReconnect'', JBool True)]))
   \<and> writes (Connection (Close L c err))
       = writes (Connection c)
         @ [Encode L (JObject ([(''type'', JInt 7)] @ omitempty (err = []) ''error'' (JString err)
                 @ [(''allowReconnect'', JBool True)])) @ [RS]]"
  by (simp add: Close_def IsConnected_def WriteMessage0_def Write_def type_member_def
      omitempty_def Let_def)


section \<open>Properties of the dispatcher\<close>

lemma buildChannelArgument_cases:
  "buildChannelArgument u invocation t n =
     (if \<not> streaming t then ((None, False, None), u)
      else if n < length (invocationMessage.StreamIds invocation) then
        ((Some \<lparr>Elem = chan_Elem t, sent = []\<rparr>, True, None),
         u\<lparr>upstreamChannels :=
             (upstreamChannels u)(invocationMessage.StreamIds invocation ! n
                \<mapsto> \<lparr>Elem = chan_Elem t, sent = []\<rparr>)\<rparr>)
      else ((None, True, Some (TooManyChanParams (invocationMessage.Target invocation))), u))"
  by (auto simp: buildChannelArgument_def streaming_def Let_def)

text \<open>When all parameters are bound, every streaming parameter has been counted.\<close>

lemma bindArguments_count:
  "bindArguments L u invocation ts args chanCount = (Inr (vs, n), u')
     \<Longrightarrow> n = chanCount + length (filter streaming ts)"
proof (induction ts arbitrary: u args chanCount vs n u')
  case Nil
  then show ?case by simp
next
  case (Cons t ts)
  show ?case
  proof (cases "streaming t")
    case True
    with Cons.prems obtain vs' u1 where
      "bindArguments L u1 invocation ts args (Suc chanCount) = (Inr (vs', n), u')"
      by (auto simp: buildChannelArgument_cases split: if_splits prod.splits sum.splits)
    from Cons.IH [OF this] True show ?thesis by simp
  next
    case False
    with Cons.prems obtain vs' rest where
      "bindArguments L u invocation ts rest chanCount = (Inr (vs', n), u')"
      by (auto simp: buildChannelArgument_cases
          split: list.splits outcome.splits prod.splits sum.splits)
    from Cons.IH [OF this] False show ?thesis by simp
  qed
qed

lemma error_text_nonempty: "error_text e \<noteq> []"
  by (cases e) simp_all

text \<open>
  Claim C4.  When the target names a registered method and the invocation declares more
  stream ids than the method has streaming parameters, dispatch aborts: its outcome is
  an error completion (type 3, the invocation's id, no result, a non-empty error text),
  and not the invocation of the method.
\<close>

theorem dispatch_too_many_stream_ids:
  assumes "methods (map lower (invocationMessage.Target invocation)) = Some params"
    and "length (invocationMessage.StreamIds invocation) > length (filter streaming params)"
  shows "\<exists>c u'. dispatch L methods u invocation = (Aborted c, u')
           \<and> completionMessage.Type c = 3
           \<and> completionMessage.InvocationID c = invocationMessage.InvocationID invocation
           \<and> completionMessage.Result c = VNil
           \<and> completionMessage.Error c \<noteq> []"
proof (cases "bindArguments L u invocation params (invocationMessage.Arguments invocation) 0")
  case (Pair r u')
  show ?thesis
  proof (cases r)
    case (Inl err)
    with Pair assms(1) show ?thesis
      by (simp add: dispatch_def error_completion_def error_text_nonempty)
  next
    case (Inr b)
    obtain vs n where b: "b = (vs, n)" by (cases b)
    from bindArguments_count Pair Inr b have "n = length (filter streaming params)"
      by fastforce
    with Pair Inr b assms show ?thesis
      by (simp add: dispatch_def error_completion_def)
  qed
qed

theorem dispatch_too_many_stream_ids_witness:
  "example_methods (map lower (invocationMessage.Target example_invocation))
     = Some [TString, TChan RecvDir TInt]
   \<and> length (invocationMessage.StreamIds example_invocation) = 2
   \<and> length (filter streaming [TString, TChan RecvDir TInt]) = 1
   \<and> fst (dispatch example_lib example_methods \<lparr>upstreamChannels = Map.empty\<rparr> example_invocation)
       = Aborted (error_completion ''77'' ''too many stream ids for method Upload'')"
proof -
  let ?u = "\<lparr>upstreamChannels = Map.empty\<rparr>"
  have h1: "example_methods (map lower (invocationMessage.Target example_invocation))
      = Some [TString, TChan RecvDir TInt]"
    by (simp add: example_methods_def example_invocation_def lower_def)
  have h2: "length (invocationMessage.StreamIds example_invocation)
      > length (filter streaming [TString, TChan RecvDir TInt])"
    by (simp add: example_invocation_def streaming_def)
  from dispatch_too_many_stream_ids
    [where methods = example_methods and invocation = example_invocation
       and params = "[TString, TChan RecvDir TInt]" and L = example_lib and u = ?u, OF h1 h2]
  obtain c u' where c: "dispatch example_lib example_methods ?u example_invocation = (Aborted c, u')"
    by blast
  have "dispatch example_lib example_methods ?u example_invocation
     = (Aborted (error_completion ''77'' ''too many stream ids for method Upload''),
        \<lparr>upstreamChannels = [''s1'' \<mapsto> \<lparr>Elem = TInt, sent = []\<rparr>]\<rparr>)"
    by (simp add: dispatch_def example_methods_def example_invocation_def lower_def
        buildChannelArgument_def UnmarshalArgument_def example_lib_def Let_def)
  with c h1 show ?thesis by (simp add: example_invocation_def streaming_def)
qed


section \<open>Encoding and decoding\<close>

text \<open>
  What \<open>Read\<close> returns is the front of what the reader had pending, and the rest stays
  pending.
\<close>

lemma Read_pending:
  "Read n r = (Inr c, r') \<Longrightarrow> pending r = c @ pending r'"
  "Read n r = (Inl e, r') \<Longrightarrow> pending r = []"
proof -
  show "Read n r = (Inr c, r') \<Longrightarrow> pending r = c @ pending r'"
  proof (cases r)
    case Nil
    assume "Read n r = (Inr c, r')"
    with Nil show ?thesis by simp
  next
    case (Cons ev rest)
    assume "Read n r = (Inr c, r')"
    with Cons show ?thesis
      by (cases ev) (auto split: if_splits simp: append_take_drop_id)
  qed
  show "Read n r = (Inl e, r') \<Longrightarrow> pending r = []"
  proof (cases r)
    case Nil
    then show ?thesis by simp
  next
    case (Cons ev rest)
    assume "Read n r = (Inl e, r')"
    with Cons show ?thesis
      by (cases ev) (auto split: if_splits)
  qed
qed

lemma split_at_delimiter:
  assumes "c @ s = f @ d # behind" and "d \<notin> set f"
  shows "(d \<in> set c \<longrightarrow> (\<exists>ys. c = f @ d # ys))
       \<and> (d \<notin> set c \<longrightarrow> (\<exists>f'. f = c @ f' \<and> s = f' @ d # behind))"
  using assms
  by (auto simp: append_eq_append_conv2 append_eq_Cons_conv Cons_eq_append_conv)

text \<open>
  However the reader cuts the bytes into reads, \<open>parseTextMessageFormat\<close> returns the
  bytes in front of the first delimiter, as long as the reader delivers that delimiter.
\<close>

lemma parseTextMessageFormat_loop_frame:
  assumes "pending r = f @ RS # behind" and "RS \<notin> set f" and "RS \<notin> set p"
  shows "fst (parseTextMessageFormat_loop acc p r) = Inr (acc @ f)"
  using assms
proof (induction acc p r arbitrary: f rule: parseTextMessageFormat_loop.induct)
  case (1 data p reader)
  obtain x reader' where rd: "Read 1024 reader = (x, reader')" by (cases "Read 1024 reader")
  show ?case
  proof (cases x)
    case (Inl e)
    with rd Read_pending(2) "1.prems"(1) show ?thesis by fastforce
  next
    case (Inr c)
    with rd have pend: "c @ pending reader' = f @ RS # behind"
      using Read_pending(1) "1.prems"(1) by metis
    note sp = split_at_delimiter [OF pend "1.prems"(2)]
    show ?thesis
    proof (cases "RS \<in> set c")
      case True
      with sp obtain ys where c: "c = f @ RS # ys" by blast
      have "IndexByte (c @ drop (length c) p) RS = Some (length f)"
        using "1.prems"(2) by (simp add: c IndexByte_first)
      then show ?thesis
        using rd Inr c
        by (subst parseTextMessageFormat_loop.simps) (simp add: Let_def)
    next
      case False
      with sp obtain f' where f': "f = c @ f'" "pending reader' = f' @ RS # behind" by blast
      have nop: "RS \<notin> set (c @ drop (length c) p)"
        using False "1.prems"(3) by (auto dest: in_set_dropD)
      then have ib: "IndexByte (c @ drop (length c) p) RS = None"
        by (rule IndexByte_None)
      have "fst (parseTextMessageFormat_loop (data @ take (length c) (c @ drop (length c) p))
               (c @ drop (length c) p) reader') = Inr ((data @ take (length c) (c @ drop (length c) p)) @ f')"
        using "1.IH" [OF rd [symmetric] Inr refl refl ib f'(2) _ nop] "1.prems"(2) f'(1) by simp
      then show ?thesis
        using rd Inr ib f'(1)
        by (subst parseTextMessageFormat_loop.simps) (simp add: Let_def)
    qed
  qed
qed

lemma parseTextMessageFormat_frame:
  assumes "pending r = f @ RS # behind" and "RS \<notin> set f"
  shows "fst (parseTextMessageFormat r) = Inr f"
  using parseTextMessageFormat_loop_frame [OF assms, of "replicate 1024 (CHR 0x00)" "[]"]
  by (simp add: parseTextMessageFormat_def RS_def)


text \<open>
  Marshalling a value the decoder produces and unmarshalling the document gives the value
  back; raw arguments are copied both ways.
\<close>

lemma those_list_map_Some:
  assumes "\<And>x. x \<in> set xs \<Longrightarrow> f x = Some (g x)"
  shows "those_list (map f xs) = Some (map g xs)"
  using assms by (induction xs) auto

lemma float_roundtrip [simp]: "json_to_value (float_to_json L r) = VFloat64 r"
  by (simp add: float_to_json_def)

lemma sint_bounds [simp]:
  "- 9223372036854775808 \<le> sint (w :: 64 word)" "sint (w :: 64 word) < 9223372036854775808"
  using sint_ge [of w] sint_lt [of w] by simp_all

lemma native_roundtrip:
  "json_native v \<Longrightarrow> \<exists>j. value_to_json L v = Some j \<and> json_to_value j = v"
proof (induction v rule: go_value.induct)
  case (VSlice xs)
  then have "\<forall>x\<in>set xs. \<exists>j. value_to_json L x = Some j \<and> json_to_value j = x"
    by (auto simp: list_all_iff)
  then obtain g where g: "\<And>x. x \<in> set xs \<Longrightarrow> value_to_json L x = Some (g x) \<and> json_to_value (g x) = x"
    by metis
  then have "those_list (map (value_to_json L) xs) = Some (map g xs)"
    by (intro those_list_map_Some) simp
  moreover have "map json_to_value (map g xs) = xs"
    using g by (simp add: map_idI)
  ultimately show ?case by simp
next
  case (VMap kvs)
  then have "\<forall>kv\<in>set kvs. \<exists>j. value_to_json L (snd kv) = Some j \<and> json_to_value j = snd kv"
    by (auto simp: list_all_iff snds.simps)
  then obtain g where g: "\<And>kv. kv \<in> set kvs \<Longrightarrow>
      value_to_json L (snd kv) = Some (g kv) \<and> json_to_value (g kv) = snd kv"
    by metis
  then have "those_list (map (\<lambda>kv. map_option (Pair (fst kv)) (value_to_json L (snd kv))) kvs)
      = Some (map (\<lambda>kv. (fst kv, g kv)) kvs)"
    by (intro those_list_map_Some) simp
  moreover have "map (\<lambda>kv. (fst kv, json_to_value (snd kv))) (map (\<lambda>kv. (fst kv, g kv)) kvs) = kvs"
    using g by (simp add: map_idI)
  ultimately show ?case by simp
qed simp_all

lemma raw_arguments:
  "list_all is_raw args \<Longrightarrow> \<exists>docs. those_list (map (value_to_json L) args) = Some docs \<and> map VRaw docs = args"
proof (induction args)
  case Nil
  then show ?case by simp
next
  case (Cons a args)
  then obtain docs where "those_list (map (value_to_json L) args) = Some docs" "map VRaw docs = args"
    by auto
  moreover from Cons.prems obtain doc where "a = VRaw doc" by (cases a) auto
  ultimately show ?case by simp
qed

lemma strings_of_JString:
  "map ((\<lambda>x. fst (string_element x)) \<circ> JString) ids = ids"
  "list_all (\<lambda>x. snd (string_element x)) (map JString ids)"
  by (induction ids) auto

text \<open>
  The document of a message on the wire decodes, as the envelope, to the type tag of its
  kind and, as the struct of that kind, to the message.
\<close>

lemma struct_roundtrip:
  assumes "wire_message m" and "message_to_json L m = Some doc"
  shows "(case m of
      HubMessage h \<Rightarrow> decode_hubMessage easyjson doc = (h, None)
    | InvocationMessage i \<Rightarrow>
        decode_hubMessage easyjson doc = (\<lparr>hubMessage.Type = invocationMessage.Type i\<rparr>, None)
        \<and> (\<exists>j. decode_jsonInvocationMessage easyjson doc = (j, None) \<and> invocation_of j = i)
    | StreamItemMessage s \<Rightarrow>
        decode_hubMessage easyjson doc = (\<lparr>hubMessage.Type = 2\<rparr>, None)
        \<and> decode_streamItemMessage easyjson doc = (s, None)
    | CompletionMessage c \<Rightarrow>
        decode_hubMessage easyjson doc = (\<lparr>hubMessage.Type = 3\<rparr>, None)
        \<and> decode_completionMessage easyjson doc = (c, None)
    | CancelInvocationMessage c \<Rightarrow>
        decode_hubMessage easyjson doc = (\<lparr>hubMessage.Type = 5\<rparr>, None)
        \<and> decode_cancelInvocationMessage easyjson doc = (c, None)
    | CloseMessage c \<Rightarrow>
        decode_hubMessage easyjson doc = (\<lparr>hubMessage.Type = 7\<rparr>, None)
        \<and> decode_closeMessage easyjson doc = (c, None)
    | _ \<Rightarrow> False)"
proof (cases m)
  case (HubMessage h)
  with assms show ?thesis
    by (auto simp: decode_hubMessage_def type_member_def find_field_def store_def easyjson_def type_error_def)
next
  case (InvocationMessage i)
  with assms(1) obtain docs where
    docs: "those_list (map (value_to_json L) (invocationMessage.Arguments i)) = Some docs"
      "map VRaw docs = invocationMessage.Arguments i"
    using raw_arguments by auto
  with InvocationMessage assms show ?thesis
    by (cases i)
      (auto simp: decode_hubMessage_def decode_jsonInvocationMessage_def invocation_of_def
        type_member_def find_field_def store_def easyjson_def type_error_def omitempty_def strings_of_JString Let_def)
next
  case (StreamItemMessage s)
  with assms(1) obtain j where "value_to_json L (streamItemMessage.Item s) = Some j"
      "json_to_value j = streamItemMessage.Item s"
    using native_roundtrip by auto
  with StreamItemMessage assms show ?thesis
    by (auto simp: decode_hubMessage_def decode_streamItemMessage_def
        type_member_def find_field_def store_def easyjson_def type_error_def)
next
  case (CompletionMessage c)
  with assms(1) obtain j where "value_to_json L (completionMessage.Result c) = Some j"
      "json_to_value j = completionMessage.Result c"
    using native_roundtrip by auto
  with CompletionMessage assms show ?thesis
    by (auto simp: decode_hubMessage_def decode_completionMessage_def
        type_member_def find_field_def store_def easyjson_def type_error_def omitempty_def)
next
  case (CancelInvocationMessage c)
  with assms show ?thesis
    by (auto simp: decode_hubMessage_def decode_cancelInvocationMessage_def
        type_member_def find_field_def store_def easyjson_def type_error_def)
next
  case (CloseMessage c)
  with assms show ?thesis
    by (auto simp: decode_hubMessage_def decode_closeMessage_def
        type_member_def find_field_def store_def easyjson_def type_error_def omitempty_def)
next
  case (SendOnlyHubInvocationMessage x)
  with assms show ?thesis by simp
next
  case (Other x)
  with assms show ?thesis by simp
qed


text \<open>
  \<open>ParseMessage\<close> on a reader that delivers a frame whose text the library reads as the
  document of a message on the wire.
\<close>

lemma ParseMessage_frame:
  assumes "wire_message m"
    and "message_to_json L m = Some doc"
    and "Unmarshal L f = Inr doc"
    and "RS \<notin> set f"
    and "pending r = f @ RS # behind"
  shows "fst (ParseMessage L r) = (Some m, None)"
proof -
  from parseTextMessageFormat_frame [OF assms(5,4)]
  obtain r' where p: "parseTextMessageFormat r = (Inr f, r')"
    by (cases "parseTextMessageFormat r") auto
  have u: "unmarshal_struct L decode f = decode doc" for decode :: "json \<Rightarrow> 'a \<times> json_error option"
    using assms(3) by (simp add: unmarshal_struct_def)
  note s = struct_roundtrip [OF assms(1,2)]
  show ?thesis
  proof (cases m)
    case (HubMessage h)
    with s assms(1) show ?thesis by (simp add: ParseMessage_def p u)
  next
    case (InvocationMessage i)
    with s assms(1) show ?thesis by (auto simp: ParseMessage_def p u)
  next
    case (StreamItemMessage x)
    with s assms(1) show ?thesis by (simp add: ParseMessage_def p u)
  next
    case (CompletionMessage x)
    with s assms(1) show ?thesis by (simp add: ParseMessage_def p u)
  next
    case (CancelInvocationMessage x)
    with s assms(1) show ?thesis by (simp add: ParseMessage_def p u)
  next
    case (CloseMessage x)
    with s assms(1) show ?thesis by (simp add: ParseMessage_def p u)
  next
    case (SendOnlyHubInvocationMessage x)
    with assms(1) show ?thesis by simp
  next
    case (Other x)
    with assms(1) show ?thesis by simp
  qed
qed

text \<open>
  Claim C2.  Let \<open>m\<close> be a message of one of the seven kinds as it comes off the wire (the
  type tag of its kind, raw arguments, an item or result that the JSON decoder produces),
  let the library read back the document it writes for \<open>m\<close>, the text being free of the
  delimiter, and let a reader deliver the frame that \<open>WriteMessage\<close> wrote for \<open>m\<close>, cut
  into reads in any way and followed by anything.  Then \<open>ParseMessage\<close> returns \<open>m\<close> and a
  nil error.
\<close>

theorem ParseMessage_WriteMessage:
  assumes "wire_message m"
    and "message_to_json L m = Some doc"
    and "Unmarshal L (Marshal L doc) = Inr doc"
    and "RS \<notin> set (Marshal L doc)"
    and "pending r = last (writes (snd (WriteMessage L m w))) @ behind"
  shows "fst (ParseMessage L r) = (Some m, None)"
proof -
  from assms(1) have "is_Marshaler m" by (cases m) simp_all
  with assms(2) have "last (writes (snd (WriteMessage L m w))) = Marshal L doc @ [RS]"
    by (simp add: WriteMessage_def MarshalEasyJSON_def Write_def Let_def)
  with assms(5) have "pending r = Marshal L doc @ RS # behind" by simp
  from ParseMessage_frame [OF assms(1,2,3,4) this] show ?thesis .
qed

text \<open>
  The same for the frame that \<open>WriteMessage\<close> of the version with a buffer writes, whose
  text ends with the newline of \<^verbatim>\<open>Encode\<close>.
\<close>

lemma ParseMessage_Encode_frame:
  assumes "wire_message m"
    and "message_to_json L m = Some doc"
    and "Unmarshal L (Encode L doc) = Inr doc"
    and "RS \<notin> set (Encode L doc)"
    and "pending r = last (writes (snd (WriteMessage0 L m w))) @ behind"
  shows "fst (ParseMessage L r) = (Some m, None)"
proof -
  from assms(2) have "last (writes (snd (WriteMessage0 L m w))) = Encode L doc @ [RS]"
    by (simp add: WriteMessage0_def Write_def)
  with assms(5) have "pending r = Encode L doc @ RS # behind" by simp
  from ParseMessage_frame [OF assms(1,2,3,4) this] show ?thesis .
qed

theorem ParseMessage_WriteMessage_witness:
  "list_all (\<lambda>m. fst (ParseMessage example_lib
       [Data (take 5 (sent_frame m)), Data (drop 5 (sent_frame m))]) = (Some m, None))
     example_messages"
proof -
  have rt: "fst (ParseMessage example_lib
       [Data (take 5 (sent_frame m)), Data (drop 5 (sent_frame m))]) = (Some m, None)"
    if "wire_message m"
      and "\<exists>doc. message_to_json example_lib m = Some doc
             \<and> Unmarshal example_lib (Marshal example_lib doc) = Inr doc
             \<and> RS \<notin> set (Marshal example_lib doc)" for m
  proof -
    from that(2) obtain doc where d: "message_to_json example_lib m = Some doc"
      "Unmarshal example_lib (Marshal example_lib doc) = Inr doc"
      "RS \<notin> set (Marshal example_lib doc)" by blast
    have "pending [Data (take 5 (sent_frame m)), Data (drop 5 (sent_frame m))]
        = last (writes (snd (WriteMessage example_lib m example_writer))) @ []"
      by (simp add: sent_frame_def)
    from ParseMessage_WriteMessage [OF that(1) d this] show ?thesis .
  qed
  have "\<forall>m\<in>set example_messages. wire_message m
      \<and> (\<exists>doc. message_to_json example_lib m = Some doc
             \<and> Unmarshal example_lib (Marshal example_lib doc) = Inr doc
             \<and> RS \<notin> set (Marshal example_lib doc))"
    by (simp add: example_messages_def example_lib_def parse_json_def parse_number_def
        negate_def quote_def is_space_def RS_def type_member_def omitempty_def float_to_json_def)
  with rt show ?thesis by (simp add: list_all_iff)
qed

text \<open>
  A value that the decoder does not produce comes back as the value the decoder produces
  for its document: the \<^verbatim>\<open>int\<close> result 315 of a completion comes back as the
  \<^verbatim>\<open>float64\<close> 315.
\<close>

lemma int_result_comes_back_as_float64:
  "fst (ParseMessage example_lib
     [Data (sent_frame (CompletionMessage \<lparr>completionMessage.Type = 3, InvocationID = ''666'',
        Result = VInt TInt 315, Error = []\<rparr>))])
   = (Some (CompletionMessage \<lparr>completionMessage.Type = 3, InvocationID = ''666'',
        Result = VFloat64 315, Error = []\<rparr>), None)"
  by (simp add: sent_frame_def WriteMessage_def MarshalEasyJSON_def Write_def example_writer_def
      example_lib_def type_member_def omitempty_def ParseMessage_def parseTextMessageFormat_def
      RS_def unmarshal_struct_def parse_json_def quote_def is_space_def decode_hubMessage_def
      decode_completionMessage_def find_field_def store_def easyjson_def type_error_def
      float_to_json_def parse_number_def)

end
